theory Spec2Isabelle
  imports Complex_Main
begin

section \<open>Data model (types.ts as used by App.tsx, constants.ts)\<close>

text \<open>
  JavaScript numbers that only ever hold integers (coordinates, money, population, prices)
  are modelled as \<open>int\<close>; numbers that hold fractions (time of day, agent kinematics) as
  \<open>real\<close>, i.e. with exact arithmetic in place of IEEE doubles.
\<close>

datatype BuildingType =
  NoneBT | Road | Residential | Commercial | Industrial | Park | Rail | TrainStation
  | Bridge | Land

record TileData =
  tile_x :: int
  tile_y :: int
  buildingType :: BuildingType
  owned :: bool
  isWater :: bool
  isRail :: bool
  landPrice :: int

type_synonym Grid = "TileData list list"

record CityStats =
  money :: int
  population :: int
  day :: int

text \<open>The display-only fields of a building configuration (description, colour) are left out.\<close>

record BuildingConfig =
  btype :: BuildingType
  cost :: int
  bname :: string
  popGen :: int
  incomeGen :: int

definition GRID_SIZE :: int where
  "GRID_SIZE = 25"

definition TICK_RATE_MS :: int where
  "TICK_RATE_MS = 2000"

definition INITIAL_MONEY :: int where
  "INITIAL_MONEY = 50000"

definition LAND_COST :: int where
  "LAND_COST = 500"

fun BUILDINGS :: "BuildingType \<Rightarrow> BuildingConfig" where
  "BUILDINGS NoneBT = \<lparr>btype = NoneBT, cost = 0, bname = ''Bulldoze'', popGen = 0, incomeGen = 0\<rparr>"
| "BUILDINGS Road = \<lparr>btype = Road, cost = 10, bname = ''Road'', popGen = 0, incomeGen = 0\<rparr>"
| "BUILDINGS Residential =
     \<lparr>btype = Residential, cost = 100, bname = ''House'', popGen = 5, incomeGen = 0\<rparr>"
| "BUILDINGS Commercial =
     \<lparr>btype = Commercial, cost = 200, bname = ''Shop'', popGen = 0, incomeGen = 15\<rparr>"
| "BUILDINGS Industrial =
     \<lparr>btype = Industrial, cost = 400, bname = ''Factory'', popGen = 0, incomeGen = 40\<rparr>"
| "BUILDINGS Park = \<lparr>btype = Park, cost = 50, bname = ''Park'', popGen = 1, incomeGen = 0\<rparr>"
| "BUILDINGS Rail = \<lparr>btype = Rail, cost = 150, bname = ''Rail'', popGen = 0, incomeGen = 0\<rparr>"
| "BUILDINGS TrainStation =
     \<lparr>btype = TrainStation, cost = 5000, bname = ''Station'', popGen = 10, incomeGen = 200\<rparr>"
| "BUILDINGS Bridge =
     \<lparr>btype = Bridge, cost = 1000, bname = ''Bridge'', popGen = 0, incomeGen = 0\<rparr>"
| "BUILDINGS Land =
     \<lparr>btype = Land, cost = LAND_COST, bname = ''Real Estate'', popGen = 0, incomeGen = 0\<rparr>"

text \<open>
  News items: the identifier (taken from the wall clock) is dropped and the template strings
  are kept as constructors with the numbers they interpolate.
\<close>

datatype NewsKind = positive | neutral | negative

datatype NewsText =
  Welcome
  | ProtectedWaterways
  | LandSold int
  | MustClearBuilding
  | TerritoryAcquired int
  | InsufficientFunds int
  | NotAdjacent
  | NotOwned
  | CannotBuildOnWater
  | BridgesOnWater
  | CannotAffordDemolition
  | TreasuryInsufficient string
  | External string

record NewsItem =
  ntext :: NewsText
  nkind :: NewsKind

text \<open>
  The state of the \<open>App\<close> component. The refs \<open>gridRef\<close> and \<open>statsRef\<close> mirror
  \<open>grid\<close> and \<open>stats\<close> and are synchronised after every state change; each timer
  callback and each click runs to completion on the one thread, so the model reads the
  state itself where the source reads the ref.
\<close>

record State =
  gameStarted :: bool
  grid :: Grid
  stats :: CityStats
  timeOfDay :: real
  newsFeed :: "NewsItem list"
  tickCounter :: int

datatype error = TypeError

section \<open>Grid creation\<close>

text \<open>
  \<open>createInitialGrid\<close> draws on \<open>Math.sin\<close>, \<open>Math.sqrt\<close> and \<open>Math.random\<close>. The three
  values derived from them are parameters: \<open>riverY y\<close> for
  \<open>Math.floor(center + Math.sin(y * 0.4) * 2.5)\<close>, \<open>randomVariance x y\<close> for
  \<open>Math.floor(Math.random() * 5000)\<close> and \<open>distTerm x y\<close> for \<open>Math.floor(dist * 500)\<close>.
  For integers \<open>x\<close> and \<open>riverY\<close> the test \<open>Math.abs(x - riverY) < 1.5\<close> is
  \<open>\<bar>x - riverY\<bar> \<le> 1\<close>.
\<close>

definition center :: int where
  "center = GRID_SIZE div 2"

definition ownedRadius :: int where
  "ownedRadius = 2"

definition createTile ::
  "(int \<Rightarrow> int) \<Rightarrow> (int \<Rightarrow> int \<Rightarrow> int) \<Rightarrow> (int \<Rightarrow> int \<Rightarrow> int) \<Rightarrow> int \<Rightarrow> int \<Rightarrow> TileData" where
  "createTile riverY randomVariance distTerm y x =
     \<lparr>tile_x = x, tile_y = y, buildingType = NoneBT,
      owned = (\<bar>x - center\<bar> \<le> ownedRadius \<and> \<bar>y - center\<bar> \<le> ownedRadius),
      isWater = (\<bar>x - riverY y\<bar> \<le> 1),
      isRail = False,
      landPrice = 5000 + randomVariance x y + distTerm x y\<rparr>"

definition createInitialGrid ::
  "(int \<Rightarrow> int) \<Rightarrow> (int \<Rightarrow> int \<Rightarrow> int) \<Rightarrow> (int \<Rightarrow> int \<Rightarrow> int) \<Rightarrow> Grid" where
  "createInitialGrid riverY randomVariance distTerm =
     map (\<lambda>y. map (createTile riverY randomVariance distTerm y) [0..GRID_SIZE - 1])
       [0..GRID_SIZE - 1]"

definition initialState ::
  "(int \<Rightarrow> int) \<Rightarrow> (int \<Rightarrow> int \<Rightarrow> int) \<Rightarrow> (int \<Rightarrow> int \<Rightarrow> int) \<Rightarrow> State" where
  "initialState riverY randomVariance distTerm =
     \<lparr>gameStarted = False,
      grid = createInitialGrid riverY randomVariance distTerm,
      stats = \<lparr>money = INITIAL_MONEY, population = 0, day = 1\<rparr>,
      timeOfDay = 0,
      newsFeed = [],
      tickCounter = 0\<rparr>"

section \<open>News feed and start\<close>

definition addNewsItem :: "NewsItem \<Rightarrow> NewsItem list \<Rightarrow> NewsItem list" where
  "addNewsItem item prev = drop (length prev - 12) prev @ [item]"

definition say :: "NewsText \<Rightarrow> NewsKind \<Rightarrow> State \<Rightarrow> State" where
  "say t k s = s\<lparr>newsFeed := addNewsItem \<lparr>ntext = t, nkind = k\<rparr> (newsFeed s)\<rparr>"

text \<open>\<open>handleStart\<close> together with the effect it triggers (the welcome message).\<close>

definition handleStart :: "State \<Rightarrow> State" where
  "handleStart s = (if gameStarted s then s else say Welcome positive (s\<lparr>gameStarted := True\<rparr>))"

section \<open>Day/night timer\<close>

text \<open>
  JavaScript's \<open>%\<close> on numbers: the remainder of the division truncated towards zero, with
  the sign of the dividend.
\<close>

definition jsTrunc :: "real \<Rightarrow> int" where
  "jsTrunc q = (if 0 \<le> q then \<lfloor>q\<rfloor> else \<lceil>q\<rceil>)"

definition jsMod :: "real \<Rightarrow> real \<Rightarrow> real" where
  "jsMod a b = a - b * of_int (jsTrunc (a / b))"


definition dayInterval :: "State \<Rightarrow> State" where
  "dayInterval s = s\<lparr>timeOfDay := jsMod (timeOfDay s + 0.001) 1\<rparr>"

section \<open>Economic tick\<close>

text \<open>
  The callback of the 2000 ms timer. The \<open>forEach\<close> over \<open>gridRef.current.flat()\<close> is a
  fold over the concatenated rows with the three accumulators; the table has a
  configuration for every building type, so the test \<open>if (config)\<close> always succeeds. The
  call of \<open>fetchNews\<close> that ends the callback goes to the external news service: what it
  returns later is the event \<open>News\<close> below.
\<close>

type_synonym ScanAcc = "int \<times> int \<times> (BuildingType \<rightharpoonup> nat)"

definition scanTile :: "ScanAcc \<Rightarrow> TileData \<Rightarrow> ScanAcc" where
  "scanTile acc tile =
     (case acc of (dailyIncome, dailyPopGrowth, buildingCounts) \<Rightarrow>
        if buildingType tile \<noteq> NoneBT \<and> owned tile then
          (let config = BUILDINGS (buildingType tile) in
             if btype config \<noteq> Land then
               (dailyIncome + incomeGen config,
                dailyPopGrowth + popGen config,
                buildingCounts(buildingType tile \<mapsto>
                  (case buildingCounts (buildingType tile) of None \<Rightarrow> 0 | Some c \<Rightarrow> c) + 1))
             else acc)
        else acc)"

definition scanGrid :: "Grid \<Rightarrow> ScanAcc" where
  "scanGrid g = foldl scanTile (0, 0, Map.empty) (concat g)"

definition resCount :: "Grid \<Rightarrow> int" where
  "resCount g =
     (case scanGrid g of (dailyIncome, dailyPopGrowth, buildingCounts) \<Rightarrow>
        (case buildingCounts Residential of None \<Rightarrow> 0 | Some c \<Rightarrow> int c))"

definition economicTick :: "State \<Rightarrow> State" where
  "economicTick s =
     (let tc = tickCounter s + 1;
          isNewDay = (tc mod 10 = 0);
          dailyIncome = fst (scanGrid (grid s));
          dailyPopGrowth = fst (snd (scanGrid (grid s)));
          maxPop = resCount (grid s) * 50;
          prev = stats s;
          newPop = population prev + dailyPopGrowth;
          newPop = (if newPop > maxPop then maxPop else newPop);
          newPop = (if resCount (grid s) = 0 \<and> population prev > 0
                    then max 0 (population prev - 5) else newPop)
      in s\<lparr>tickCounter := tc,
           stats := \<lparr>money = money prev + dailyIncome,
                     population = newPop,
                     day = (if isNewDay then day prev + 1 else day prev)\<rparr>\<rparr>)"

section \<open>Tile interaction\<close>

text \<open>
  \<open>currentGrid[y][x]\<close>: a missing row or a missing tile is \<open>undefined\<close>, and reading a field
  of it throws a \<open>TypeError\<close>.
\<close>

definition tileAt :: "Grid \<Rightarrow> int \<Rightarrow> int \<Rightarrow> TileData option" where
  "tileAt g x y =
     (if 0 \<le> y \<and> y < int (length g) \<and> 0 \<le> x \<and> x < int (length (g ! nat y))
      then Some (g ! nat y ! nat x) else None)"

definition ownedAt :: "Grid \<Rightarrow> int \<Rightarrow> int \<Rightarrow> error + bool" where
  "ownedAt g x y = (case tileAt g x y of None \<Rightarrow> Inl TypeError | Some t \<Rightarrow> Inr (owned t))"

text \<open>Short-circuit \<open>||\<close> and \<open>&&\<close> over operands that may throw.\<close>

definition jsOr :: "error + bool \<Rightarrow> error + bool \<Rightarrow> error + bool" where
  "jsOr a b = (case a of Inl e \<Rightarrow> Inl e | Inr v \<Rightarrow> if v then Inr True else b)"

definition jsAnd :: "bool \<Rightarrow> error + bool \<Rightarrow> error + bool" where
  "jsAnd c b = (if c then b else Inr False)"

definition hasOwnedNeighbor :: "Grid \<Rightarrow> int \<Rightarrow> int \<Rightarrow> error + bool" where
  "hasOwnedNeighbor g x y =
     jsOr (jsAnd (x > 0) (ownedAt g (x - 1) y))
       (jsOr (jsAnd (x < GRID_SIZE - 1) (ownedAt g (x + 1) y))
          (jsOr (jsAnd (y > 0) (ownedAt g x (y - 1)))
             (jsAnd (y < GRID_SIZE - 1) (ownedAt g x (y + 1)))))"

text \<open>
  \<open>newGrid = currentGrid.map(row => [...row]); newGrid[y][x] = t\<close>, for coordinates that
  \<open>tileAt\<close> has found in range.
\<close>

definition setTile :: "Grid \<Rightarrow> int \<Rightarrow> int \<Rightarrow> TileData \<Rightarrow> Grid" where
  "setTile g x y t = g[nat y := (g ! nat y)[nat x := t]]"

text \<open>\<open>landPrice || LAND_COST\<close>: a price of 0 is falsy.\<close>

definition priceOf :: "TileData \<Rightarrow> int" where
  "priceOf t = (if landPrice t = 0 then LAND_COST else landPrice t)"

definition spend :: "int \<Rightarrow> State \<Rightarrow> State" where
  "spend c s = s\<lparr>stats := (stats s)\<lparr>money := money (stats s) - c\<rparr>\<rparr>"

definition credit :: "int \<Rightarrow> State \<Rightarrow> State" where
  "credit c s = s\<lparr>stats := (stats s)\<lparr>money := money (stats s) + c\<rparr>\<rparr>"

definition landTool :: "int \<Rightarrow> int \<Rightarrow> TileData \<Rightarrow> State \<Rightarrow> error + State" where
  "landTool x y currentTile s =
     (if isWater currentTile then Inr (say ProtectedWaterways neutral s)
      else if owned currentTile then
        (if buildingType currentTile = NoneBT then
           (let sellPrice = \<lfloor>real_of_int (priceOf currentTile) * 0.5\<rfloor>
            in Inr (say (LandSold sellPrice) neutral
                 (credit sellPrice
                    (s\<lparr>grid := setTile (grid s) x y (currentTile\<lparr>owned := False\<rparr>)\<rparr>))))
         else Inr (say MustClearBuilding negative s))
      else
        (let cost = priceOf currentTile in
           case hasOwnedNeighbor (grid s) x y of
             Inl e \<Rightarrow> Inl e
           | Inr hasNeighbor \<Rightarrow>
               if hasNeighbor then
                 (if money (stats s) \<ge> cost then
                    Inr (say (TerritoryAcquired cost) positive
                      (spend cost
                         (s\<lparr>grid := setTile (grid s) x y (currentTile\<lparr>owned := True\<rparr>)\<rparr>)))
                  else Inr (say (InsufficientFunds cost) negative s))
               else Inr (say NotAdjacent neutral s)))"

definition demolishCost :: int where
  "demolishCost = 5"

definition buildTool :: "BuildingType \<Rightarrow> int \<Rightarrow> int \<Rightarrow> TileData \<Rightarrow> State \<Rightarrow> State" where
  "buildTool tool x y currentTile s =
     (if \<not> owned currentTile then say NotOwned negative s
      else if isWater currentTile \<and> tool \<noteq> Rail \<and> tool \<noteq> Bridge
        then say CannotBuildOnWater negative s
      else if \<not> isWater currentTile \<and> tool = Bridge then say BridgesOnWater negative s
      else
        (let buildingConfig = BUILDINGS tool in
           if tool = NoneBT then
             (if buildingType currentTile \<noteq> NoneBT then
                (if money (stats s) \<ge> demolishCost then
                   spend demolishCost
                     (s\<lparr>grid := setTile (grid s) x y
                         (currentTile\<lparr>buildingType := NoneBT, isRail := False\<rparr>)\<rparr>)
                 else say CannotAffordDemolition negative s)
              else s)
           else if buildingType currentTile = NoneBT \<or> (tool = Rail \<and> isWater currentTile)
                   \<or> (tool = Bridge \<and> isWater currentTile) then
             (if money (stats s) \<ge> cost buildingConfig then
                (if tool = Rail then
                   spend (cost buildingConfig)
                     (s\<lparr>grid := setTile (grid s) x y
                         (currentTile\<lparr>buildingType := Rail, isRail := True\<rparr>)\<rparr>)
                 else
                   spend (cost buildingConfig)
                     (s\<lparr>grid := setTile (grid s) x y (currentTile\<lparr>buildingType := tool\<rparr>)\<rparr>))
              else say (TreasuryInsufficient (bname buildingConfig)) negative s)
           else s))"

definition handleTileClick :: "BuildingType \<Rightarrow> int \<Rightarrow> int \<Rightarrow> State \<Rightarrow> error + State" where
  "handleTileClick tool x y s =
     (if \<not> gameStarted s then Inr s
      else if x < 0 \<or> x \<ge> GRID_SIZE \<or> y < 0 \<or> y \<ge> GRID_SIZE then Inr s
      else
        (case tileAt (grid s) x y of
           None \<Rightarrow> Inl TypeError
         | Some currentTile \<Rightarrow>
             if tool = Land then landTool x y currentTile s
             else Inr (buildTool tool x y currentTile s)))"

section \<open>Events, traces and reachable states\<close>

text \<open>
  The things that can happen to the component: the start button, a click on a tile with
  the selected tool, a firing of either timer (the timers exist only while the game is
  started) and the arrival of a news item from the external service.
\<close>

datatype event = Start | Click BuildingType int int | Tick | DayTick | News NewsItem

definition fire :: "event \<Rightarrow> State \<Rightarrow> error + State" where
  "fire e s =
     (case e of
        Start \<Rightarrow> Inr (handleStart s)
      | Click tool x y \<Rightarrow> handleTileClick tool x y s
      | Tick \<Rightarrow> Inr (if gameStarted s then economicTick s else s)
      | DayTick \<Rightarrow> Inr (if gameStarted s then dayInterval s else s)
      | News item \<Rightarrow> Inr (s\<lparr>newsFeed := addNewsItem item (newsFeed s)\<rparr>))"

fun run :: "event list \<Rightarrow> State \<Rightarrow> error + State" where
  "run [] s = Inr s"
| "run (e # es) s = (case fire e s of Inl err \<Rightarrow> Inl err | Inr s' \<Rightarrow> run es s')"

definition validGen :: "(int \<Rightarrow> int \<Rightarrow> int) \<Rightarrow> (int \<Rightarrow> int \<Rightarrow> int) \<Rightarrow> bool" where
  "validGen randomVariance distTerm =
     (\<forall>x y. 0 \<le> randomVariance x y \<and> randomVariance x y < 5000 \<and> 0 \<le> distTerm x y)"

inductive reachable :: "State \<Rightarrow> bool" where
  init: "validGen randomVariance distTerm \<Longrightarrow>
         reachable (initialState riverY randomVariance distTerm)"
| step: "reachable s \<Longrightarrow> fire e s = Inr s' \<Longrightarrow> reachable s'"

section \<open>Agent movement systems (IsoMap.tsx)\<close>

text \<open>
  The systems keep their agents in \<open>Float32Array\<close>s of six numbers per agent; the model
  keeps a list of records, with exact real arithmetic. Every value of \<open>Math.random()\<close> is
  an argument. A per-frame callback either returns at its guard (\<open>NoWork\<close>), throws, or
  runs its loop over the agents.
\<close>

type_synonym Pos = "int \<times> int"

datatype 'a frame = NoWork | Threw error | Updated 'a

definition WORLD_OFFSET :: real where
  "WORLD_OFFSET = real_of_int GRID_SIZE / 2 - 0.5"

definition gridToWorld :: "real \<Rightarrow> real \<Rightarrow> real \<times> real \<times> real" where
  "gridToWorld x y = (x - WORLD_OFFSET, 0, y - WORLD_OFFSET)"

definition getRandomRange :: "real \<Rightarrow> real \<Rightarrow> real \<Rightarrow> real" where
  "getRandomRange lo hi r = r * (hi - lo) + lo"

text \<open>\<open>MathUtils.lerp\<close> of three.js.\<close>

definition lerp :: "real \<Rightarrow> real \<Rightarrow> real \<Rightarrow> real" where
  "lerp x y t = (1 - t) * x + t * y"

text \<open>
  \<open>xs[Math.floor(r * xs.length)]\<close>: outside the array the value is \<open>undefined\<close>
  (\<open>None\<close>), and the field access that follows throws.
\<close>

definition pickAt :: "'a list \<Rightarrow> real \<Rightarrow> 'a option" where
  "pickAt xs r =
     (let i = \<lfloor>r * real (length xs)\<rfloor>
      in if 0 \<le> i \<and> i < int (length xs) then Some (xs ! nat i) else None)"

fun collect :: "(error + 'a) list \<Rightarrow> error + 'a list" where
  "collect [] = Inr []"
| "collect (r # rs) =
     (case r of
        Inl e \<Rightarrow> Inl e
      | Inr v \<Rightarrow> (case collect rs of Inl e \<Rightarrow> Inl e | Inr vs \<Rightarrow> Inr (v # vs)))"

definition tilePos :: "TileData \<Rightarrow> Pos" where
  "tilePos t = (tile_x t, tile_y t)"

subsection \<open>Vehicles\<close>

record Car =
  curX :: real
  curY :: real
  tarX :: real
  tarY :: real
  progress :: real
  speed :: real


definition carCount :: "Pos list \<Rightarrow> nat" where
  "carCount tiles = min (length tiles) 30"

text \<open>The component returns \<open>null\<close> below two road tiles; the mesh ref is set when it renders.\<close>

definition TrafficSystem_renders :: "Pos list \<Rightarrow> bool" where
  "TrafficSystem_renders tiles = (\<not> length tiles < 2)"

text \<open>The seeding effect; \<open>rs 0\<close> and \<open>rs 1\<close> are the random draws for the start node and the speed.\<close>

definition seedCar :: "Pos list \<Rightarrow> (nat \<Rightarrow> real) \<Rightarrow> error + Car" where
  "seedCar tiles rs =
     (case pickAt tiles (rs 0) of
        None \<Rightarrow> Inl TypeError
      | Some startNode \<Rightarrow>
          Inr \<lparr>curX = of_int (fst startNode), curY = of_int (snd startNode),
               tarX = of_int (fst startNode), tarY = of_int (snd startNode),
               progress = 1, speed = getRandomRange 0.01 0.03 (rs 1)\<rparr>)"

definition seedCars :: "Pos list \<Rightarrow> (nat \<Rightarrow> nat \<Rightarrow> real) \<Rightarrow> Car list \<Rightarrow> error + Car list" where
  "seedCars tiles rnd old =
     (if length tiles < 2 then Inr old
      else collect (map (\<lambda>i. seedCar tiles (rnd i)) [0..<carCount tiles]))"

definition isNeighbor :: "real \<Rightarrow> real \<Rightarrow> Pos \<Rightarrow> bool" where
  "isNeighbor cx cy t =
     ((\<bar>of_int (fst t) - cx\<bar> = 1 \<and> of_int (snd t) = cy) \<or>
      (\<bar>of_int (snd t) - cy\<bar> = 1 \<and> of_int (fst t) = cx))"

text \<open>
  One turn of the loop body for one car; \<open>r\<close> is the random draw used if a target or a
  teleport destination is chosen. The filter for \<open>valid\<close> (\<open>validTargets\<close>) reads the
  car's stored position, which is still the tile it has just left; \<open>nextTarget\<close> is the
  expression bound to \<open>next\<close>.
\<close>

definition validTargets :: "Car \<Rightarrow> Pos list \<Rightarrow> Pos list" where
  "validTargets car neighbors =
     (if length neighbors > 1
      then filter (\<lambda>n. \<bar>of_int (fst n) - curX car\<bar> > 0.1 \<or>
                        \<bar>of_int (snd n) - curY car\<bar> > 0.1) neighbors
      else neighbors)"

definition nextTarget :: "real \<Rightarrow> Pos list \<Rightarrow> Pos list \<Rightarrow> Pos option" where
  "nextTarget r valid neighbors =
     (if length valid > 0 then pickAt valid r else Some (neighbors ! 0))"

definition carStep :: "Pos list \<Rightarrow> real \<Rightarrow> Car \<Rightarrow> error + Car" where
  "carStep tiles r car =
     (let progress' = progress car + speed car in
        if progress' \<ge> 1 then
          (let cx = tarX car; cy = tarY car;
               neighbors = filter (isNeighbor cx cy) tiles
           in if length neighbors > 0 then
                (let valid = validTargets car neighbors;
                     next = nextTarget r valid neighbors
                 in case next of
                      None \<Rightarrow> Inl TypeError
                    | Some n \<Rightarrow>
                        Inr (car\<lparr>curX := cx, curY := cy, tarX := of_int (fst n),
                                 tarY := of_int (snd n), progress := 0\<rparr>))
              else
                (case pickAt tiles r of
                   None \<Rightarrow> Inl TypeError
                 | Some rnd \<Rightarrow>
                     Inr (car\<lparr>curX := of_int (fst rnd), curY := of_int (snd rnd),
                              tarX := of_int (fst rnd), tarY := of_int (snd rnd),
                              progress := 0\<rparr>)))
        else Inr (car\<lparr>progress := progress'\<rparr>))"

text \<open>
  What the loop draws for a car: the interpolated grid position, the driving-side offset
  and the world position handed to the mesh.
\<close>

definition carGridPos :: "Car \<Rightarrow> real \<times> real" where
  "carGridPos car =
     (lerp (curX car) (tarX car) (progress car), lerp (curY car) (tarY car) (progress car))"

definition carOffset :: "Car \<Rightarrow> real \<times> real" where
  "carOffset car =
     (let dx = tarX car - curX car; dy = tarY car - curY car;
          offsetAmt = 0.15;
          len = (if sqrt (dx * dx + dy * dy) = 0 then 1 else sqrt (dx * dx + dy * dy))
      in ((- dy / len) * offsetAmt, (dx / len) * offsetAmt))"

definition carWorldPos :: "Car \<Rightarrow> real \<times> real \<times> real" where
  "carWorldPos car =
     gridToWorld (fst (carGridPos car) + fst (carOffset car))
       (snd (carGridPos car) + snd (carOffset car))"

text \<open>
  The loop \<open>for (i = 0; i < carCount; i++)\<close> over the cars held in \<open>carsState\<close> (the
  seeding effect sizes it to \<open>carCount\<close> cars).
\<close>

fun stepCars :: "Pos list \<Rightarrow> (nat \<Rightarrow> real) \<Rightarrow> nat \<Rightarrow> Car list \<Rightarrow> error + Car list" where
  "stepCars tiles rnd i [] = Inr []"
| "stepCars tiles rnd i (car # cars) =
     (case carStep tiles (rnd i) car of
        Inl e \<Rightarrow> Inl e
      | Inr car' \<Rightarrow>
          (case stepCars tiles rnd (i + 1) cars of
             Inl e \<Rightarrow> Inl e
           | Inr cars' \<Rightarrow> Inr (car' # cars')))"

definition TrafficSystem_frame :: "Pos list \<Rightarrow> (nat \<Rightarrow> real) \<Rightarrow> Car list \<Rightarrow> Car list frame" where
  "TrafficSystem_frame tiles rnd cars =
     (if \<not> TrafficSystem_renders tiles \<or> length tiles < 2 \<or> length cars = 0 then NoWork
      else (case stepCars tiles rnd 0 cars of Inl e \<Rightarrow> Threw e | Inr cars' \<Rightarrow> Updated cars'))"

text \<open>Frame after frame on an unchanged grid; a frame that returns at its guard changes nothing.\<close>

fun TrafficSystem_frames :: "Pos list \<Rightarrow> (nat \<Rightarrow> real) list \<Rightarrow> Car list \<Rightarrow> error + Car list" where
  "TrafficSystem_frames tiles [] cars = Inr cars"
| "TrafficSystem_frames tiles (rnd # rnds) cars =
     (case TrafficSystem_frame tiles rnd cars of
        NoWork \<Rightarrow> TrafficSystem_frames tiles rnds cars
      | Threw e \<Rightarrow> Inl e
      | Updated cars' \<Rightarrow> TrafficSystem_frames tiles rnds cars')"

subsection \<open>Train\<close>


definition TrainSystem_renders :: "Pos list \<Rightarrow> bool" where
  "TrainSystem_renders tiles = (length tiles \<noteq> 0)"

definition trainSpeed :: real where
  "trainSpeed = 3"

definition trainRawPos :: "nat \<Rightarrow> real \<Rightarrow> real" where
  "trainRawPos totalLen p = jsMod p (real totalLen * 2)"

definition trainPos :: "nat \<Rightarrow> real \<Rightarrow> real" where
  "trainPos totalLen p =
     (let rawPos = trainRawPos totalLen p
      in if rawPos > real totalLen then real totalLen * 2 - rawPos else rawPos)"

text \<open>
  The pose set on the train: its grid position (before \<open>gridToWorld\<close>), the vector whose
  \<open>atan2\<close> is the heading, and whether \<open>Math.PI\<close> is added to that heading.
\<close>

record TrainPose =
  trainX :: real
  trainY :: real
  headDx :: real
  headDy :: real
  reversed :: bool

definition TrainSystem_frame :: "Pos list \<Rightarrow> real \<Rightarrow> real \<Rightarrow> (real \<times> TrainPose) frame" where
  "TrainSystem_frame tiles progressRef delta =
     (if \<not> TrainSystem_renders tiles \<or> length tiles < 2 then NoWork
      else
        (let p = progressRef + delta * trainSpeed;
             totalLen = length tiles;
             rawPos = trainRawPos totalLen p;
             pos = trainPos totalLen p;
             idx = \<lfloor>pos\<rfloor>;
             nextIdx = min (idx + 1) (int totalLen - 1);
             t = pos - of_int idx
         in if idx < 0 \<or> int totalLen \<le> idx then Threw TypeError
            else
              (let cur = tiles ! nat idx; next = tiles ! nat nextIdx
               in Updated (p,
                    \<lparr>trainX = lerp (of_int (fst cur)) (of_int (fst next)) t,
                     trainY = lerp (of_int (snd cur)) (of_int (snd next)) t,
                     headDx = of_int (fst next) - of_int (fst cur),
                     headDy = of_int (snd next) - of_int (snd cur),
                     reversed = (rawPos > real totalLen)\<rparr>))))"

subsection \<open>Pedestrians\<close>


definition walkableTiles :: "Grid \<Rightarrow> Pos list" where
  "walkableTiles g =
     map tilePos
       (filter (\<lambda>t. owned t \<and> \<not> isWater t \<and> \<not> isRail t \<and>
                  (buildingType t = Road \<or> buildingType t = Park \<or> buildingType t = NoneBT))
          (concat g))"








section \<open>The train's fold as the specification words it\<close>

text \<open>
  Follows the spec's words, for comparison with \<open>trainPos\<close>: a triangle wave that folds the
  progress over \<open>[0, 2 \<times> (count - 1)]\<close>.
\<close>

definition spec_pingPong :: "nat \<Rightarrow> real \<Rightarrow> real" where
  "spec_pingPong count p =
     (let top = real count - 1; r = jsMod p (2 * top)
      in if r > top then 2 * top - r else r)"

section \<open>Predicates used in the statements\<close>

text \<open>
  Coordinates inside the grid; a property of every tile of a grid; the invariant behind the
  money claim; the residential counter of a scan; random draws as \<open>Math.random()\<close> returns
  them; positions that are tiles of a movement graph; the invariant of a vehicle.
\<close>

definition inBounds :: "int \<Rightarrow> int \<Rightarrow> bool" where
  "inBounds x y = (0 \<le> x \<and> x < GRID_SIZE \<and> 0 \<le> y \<and> y < GRID_SIZE)"

definition allTiles :: "(TileData \<Rightarrow> bool) \<Rightarrow> Grid \<Rightarrow> bool" where
  "allTiles P g = (\<forall>row \<in> set g. \<forall>t \<in> set row. P t)"

definition moneyInv :: "State \<Rightarrow> bool" where
  "moneyInv s = (0 \<le> money (stats s) \<and> allTiles (\<lambda>t. 0 \<le> landPrice t) (grid s))"

definition countRes :: "(BuildingType \<rightharpoonup> nat) \<Rightarrow> nat" where
  "countRes m = (case m Residential of None \<Rightarrow> 0 | Some c \<Rightarrow> c)"

definition unitDraw :: "real \<Rightarrow> bool" where
  "unitDraw r = (0 \<le> r \<and> r < 1)"

definition onTiles :: "Pos list \<Rightarrow> real \<Rightarrow> real \<Rightarrow> bool" where
  "onTiles tiles x y = (\<exists>t \<in> set tiles. x = of_int (fst t) \<and> y = of_int (snd t))"

definition carInv :: "Pos list \<Rightarrow> Car \<Rightarrow> bool" where
  "carInv tiles c =
     (onTiles tiles (curX c) (curY c) \<and> onTiles tiles (tarX c) (tarY c) \<and>
      0 \<le> progress c \<and> progress c \<le> 1 \<and> 0 \<le> speed c)"

section \<open>A concrete game\<close>

text \<open>
  The river table lists \<open>Math.floor(12 + Math.sin(y * 0.4) * 2.5)\<close> for \<open>y = 0, \<dots>, 24\<close>;
  the price terms are taken as 0, so every plot costs the base price.
\<close>

definition exampleRiverY :: "int \<Rightarrow> int" where
  "exampleRiverY y =
     [12, 12, 13, 14, 14, 14, 13, 12, 11, 10, 10, 9, 9, 9, 10, 11, 12, 13, 13, 14, 14, 14,
      13, 12, 11] ! nat y"

definition exampleInit :: State where
  "exampleInit = initialState exampleRiverY (\<lambda>x y. 0) (\<lambda>x y. 0)"

definition after :: "event list \<Rightarrow> State" where
  "after es = projr (run es exampleInit)"

text \<open>Traces of that game, small movement graphs and fixed random draws used as examples.\<close>

definition growTrace :: "event list" where
  "growTrace = [Start, Click Residential 12 12, Tick]"

definition flightTrace :: "event list" where
  "flightTrace = [Start, Click Residential 12 12, Tick, Tick, Click NoneBT 12 12]"

definition bridgeOverRailTrace :: "event list" where
  "bridgeOverRailTrace = [Start, Click Rail 10 12, Click Bridge 10 12]"


definition threeRails :: "Pos list" where
  "threeRails = [(0, 0), (1, 0), (2, 0)]"

definition twoRoads :: "Pos list" where
  "twoRoads = [(0, 0), (1, 0)]"


definition zeroDraw :: "nat \<Rightarrow> real" where
  "zeroDraw i = 0"

definition zeroDraws :: "nat \<Rightarrow> nat \<Rightarrow> real" where
  "zeroDraws i k = 0"

section \<open>Properties of the tick\<close>

lemma run_reachable: "reachable s \<Longrightarrow> run es s = Inr s' \<Longrightarrow> reachable s'"
proof (induction es arbitrary: s)
  case Nil
  then show ?case by simp
next
  case (Cons e es)
  then show ?case
    by (auto split: sum.splits intro: reachable.step)
qed

lemma exampleInit_reachable: "reachable exampleInit"
  unfolding exampleInit_def by (rule reachable.init) (simp add: validGen_def)

lemma after_reachable: "run es exampleInit = Inr s \<Longrightarrow> reachable (after es)"
  using run_reachable [OF exampleInit_reachable, of es s] by (simp add: after_def)

lemma scanTile_income: "fst acc \<le> fst (scanTile acc t)"
  by (cases "buildingType t") (auto simp: scanTile_def split: prod.splits)

lemma scanTile_pop: "fst (snd acc) \<le> fst (snd (scanTile acc t))"
  by (cases "buildingType t") (auto simp: scanTile_def split: prod.splits)

lemma scanTile_count:
  "countRes (snd (snd (scanTile acc t))) =
     countRes (snd (snd acc)) + (if owned t \<and> buildingType t = Residential then 1 else 0)"
  by (cases "buildingType t") (auto simp: scanTile_def countRes_def split: prod.splits)

lemma foldl_scan_income: "fst acc \<le> fst (foldl scanTile acc ts)"
proof (induction ts arbitrary: acc)
  case Nil
  show ?case by simp
next
  case (Cons t ts)
  have "fst acc \<le> fst (scanTile acc t)" by (rule scanTile_income)
  also have "\<dots> \<le> fst (foldl scanTile (scanTile acc t) ts)" by (rule Cons.IH)
  finally show ?case by simp
qed

lemma foldl_scan_pop: "fst (snd acc) \<le> fst (snd (foldl scanTile acc ts))"
proof (induction ts arbitrary: acc)
  case Nil
  show ?case by simp
next
  case (Cons t ts)
  have "fst (snd acc) \<le> fst (snd (scanTile acc t))" by (rule scanTile_pop)
  also have "\<dots> \<le> fst (snd (foldl scanTile (scanTile acc t) ts))" by (rule Cons.IH)
  finally show ?case by simp
qed

lemma foldl_scan_count:
  "countRes (snd (snd (foldl scanTile acc ts))) =
     countRes (snd (snd acc)) + length (filter (\<lambda>t. owned t \<and> buildingType t = Residential) ts)"
  by (induction ts arbitrary: acc) (simp_all add: scanTile_count)

lemma dailyIncome_nonneg: "0 \<le> fst (scanGrid g)"
  using foldl_scan_income [of "(0, 0, Map.empty)" "concat g"] by (simp add: scanGrid_def)

lemma dailyPopGrowth_nonneg: "0 \<le> fst (snd (scanGrid g))"
  using foldl_scan_pop [of "(0, 0, Map.empty)" "concat g"] by (simp add: scanGrid_def)

lemma resCount_eq:
  "resCount g = int (length (filter (\<lambda>t. owned t \<and> buildingType t = Residential) (concat g)))"
proof -
  have "resCount g = int (countRes (snd (snd (scanGrid g))))"
    by (simp add: resCount_def countRes_def split: prod.splits option.splits)
  also have "\<dots> = int (length (filter (\<lambda>t. owned t \<and> buildingType t = Residential) (concat g)))"
    using foldl_scan_count [of "(0, 0, Map.empty)" "concat g"]
    by (simp add: scanGrid_def countRes_def)
  finally show ?thesis .
qed

lemma resCount_nonneg: "0 \<le> resCount g"
  by (simp add: resCount_eq)

lemma grid_economicTick: "grid (economicTick s) = grid s"
  by (simp add: economicTick_def Let_def)

lemma money_economicTick: "money (stats (economicTick s)) = money (stats s) + fst (scanGrid (grid s))"
  by (simp add: economicTick_def Let_def)

lemma population_economicTick:
  "population (stats (economicTick s)) =
     (if resCount (grid s) = 0 \<and> population (stats s) > 0 then max 0 (population (stats s) - 5)
      else min (population (stats s) + fst (snd (scanGrid (grid s)))) (resCount (grid s) * 50))"
  by (simp add: economicTick_def Let_def min_def)

section \<open>Population dynamics\<close>

lemma grid_funpow_economicTick: "grid ((economicTick ^^ n) s) = grid s"
  by (induction n) (simp_all add: grid_economicTick)

lemma population_funpow_flight:
  assumes "resCount (grid s) = 0" and "0 \<le> population (stats s)"
  shows "population (stats ((economicTick ^^ n) s)) = max 0 (population (stats s) - 5 * int n)"
proof (induction n)
  case 0
  from assms(2) show ?case by simp
next
  case (Suc n)
  let ?t = "(economicTick ^^ n) s"
  have g: "resCount (grid ?t) = 0"
    using assms(1) by (simp add: grid_funpow_economicTick)
  have growth: "0 \<le> fst (snd (scanGrid (grid ?t)))"
    by (rule dailyPopGrowth_nonneg)
  have "population (stats (economicTick ?t)) = max 0 (population (stats s) - 5 * int (Suc n))"
    using g growth Suc.IH by (auto simp add: population_economicTick max_def min_def)
  then show ?case by simp
qed

lemma growTrace_run: "run growTrace exampleInit = Inr (after growTrace)"
  unfolding after_def growTrace_def by code_simp

lemma flightTrace_run: "run flightTrace exampleInit = Inr (after flightTrace)"
  unfolding after_def flightTrace_def by code_simp

lemma flightState_values:
  "resCount (grid (after flightTrace)) = 0 \<and> population (stats (after flightTrace)) = 10"
  unfolding after_def flightTrace_def by code_simp

lemma growState_values:
  "resCount (grid (after growTrace)) = 1 \<and> population (stats (after growTrace)) = 5"
  unfolding after_def growTrace_def by code_simp

text \<open>
  C1 (as stated): after every tick the population is at most \<open>residentialCount \<times> 50\<close>.
  This fails in a reachable state: a house is built, two ticks bring the population to 10,
  the house is bulldozed, and the next tick (no homes, people leave) sets the population to
  5, above the cap of 0.
\<close>

theorem tick_population_cap_counterexample:
  "reachable (after flightTrace) \<and>
   \<not> population (stats (economicTick (after flightTrace)))
       \<le> resCount (grid (after flightTrace)) * 50"
proof
  show "reachable (after flightTrace)"
    using flightTrace_run by (rule after_reachable)
  show "\<not> population (stats (economicTick (after flightTrace)))
          \<le> resCount (grid (after flightTrace)) * 50"
    using flightState_values by (simp add: population_economicTick)
qed

text \<open>
  C1 (amended): after a tick the population is at most \<open>residentialCount \<times> 50\<close>, where
  \<open>residentialCount\<close> is the number of owned Residential tiles scanned by that tick,
  provided that count is not zero or the population before the tick was not positive.
  In the remaining case (no owned Residential tile, positive population) the tick sets
  the population to \<open>max 0 (population - 5)\<close> instead of applying the cap.
\<close>

theorem tick_population_cap:
  "resCount (grid s) =
     int (length (filter (\<lambda>t. owned t \<and> buildingType t = Residential) (concat (grid s)))) \<and>
   (resCount (grid s) \<noteq> 0 \<or> population (stats s) \<le> 0 \<longrightarrow>
      population (stats (economicTick s)) \<le> resCount (grid s) * 50) \<and>
   (resCount (grid s) = 0 \<and> 0 < population (stats s) \<longrightarrow>
      population (stats (economicTick s)) = max 0 (population (stats s) - 5))"
  by (auto simp: population_economicTick resCount_eq)

theorem tick_population_cap_witness:
  "resCount (grid (after growTrace)) = 1 \<and>
   population (stats (economicTick (after growTrace))) \<le> resCount (grid (after growTrace)) * 50 \<and>
   (resCount (grid (after flightTrace)) = 0 \<and> 0 < population (stats (after flightTrace))) \<and>
   population (stats (economicTick (after flightTrace))) = 5"
  using tick_population_cap [of "after growTrace"] tick_population_cap [of "after flightTrace"]
    growState_values flightState_values
  by simp

text \<open>
  C3: in a tick that counts no owned Residential tile while the population is positive,
  the new population is \<open>max 0 (population - 5)\<close>, which is strictly smaller; over \<open>n\<close>
  such ticks in a row (the tick does not change the grid) the population is
  \<open>max 0 (population - 5 n)\<close>, so it falls by 5 per tick until it reaches 0 and then stays
  at 0.
\<close>

theorem flight_dynamic:
  assumes "resCount (grid s) = 0" and "0 < population (stats s)"
  shows "population (stats (economicTick s)) = max 0 (population (stats s) - 5) \<and>
         population (stats (economicTick s)) < population (stats s) \<and>
         (\<forall>n. population (stats ((economicTick ^^ n) s)) = max 0 (population (stats s) - 5 * int n))"
proof -
  have one: "population (stats (economicTick s)) = max 0 (population (stats s) - 5)"
    using assms by (simp add: population_economicTick)
  have less: "population (stats (economicTick s)) < population (stats s)"
    using assms one by simp
  have many: "\<forall>n. population (stats ((economicTick ^^ n) s)) = max 0 (population (stats s) - 5 * int n)"
    using population_funpow_flight [of s] assms by simp
  from one less many show ?thesis by blast
qed

theorem flight_dynamic_witness:
  "resCount (grid (after flightTrace)) = 0 \<and> 0 < population (stats (after flightTrace)) \<and>
   population (stats (economicTick (after flightTrace))) = 5 \<and>
   population (stats ((economicTick ^^ 2) (after flightTrace))) = 0 \<and>
   population (stats ((economicTick ^^ 3) (after flightTrace))) = 0"
proof -
  have h1: "resCount (grid (after flightTrace)) = 0"
    using flightState_values by simp
  have h2: "0 < population (stats (after flightTrace))"
    using flightState_values by simp
  show ?thesis
    using flight_dynamic [OF h1 h2] flightState_values by simp
qed

section \<open>Properties of a click\<close>

lemma floor_half: "\<lfloor>real_of_int p * 0.5\<rfloor> = p div 2"
proof -
  have "real_of_int p * 0.5 = real_of_int p / real_of_int 2" by simp
  then show ?thesis by (simp only: floor_divide_of_int_eq)
qed

lemma handleTileClick_started:
  assumes "gameStarted s" and "inBounds x y" and "tileAt (grid s) x y = Some t"
  shows "handleTileClick tool x y s =
           (if tool = Land then landTool x y t s else Inr (buildTool tool x y t s))"
  using assms by (simp add: handleTileClick_def inBounds_def)

lemma tileAt_mem:
  assumes "tileAt g x y = Some t"
  shows "nat y < length g \<and> nat x < length (g ! nat y) \<and> t = g ! nat y ! nat x \<and>
         0 \<le> x \<and> 0 \<le> y \<and> y < int (length g) \<and> x < int (length (g ! nat y))"
  using assms by (auto simp: tileAt_def split: if_splits)

lemma tileAt_setTile_same:
  assumes "tileAt g x y = Some t"
  shows "tileAt (setTile g x y t') x y = Some t'"
  using tileAt_mem [OF assms] by (simp add: tileAt_def setTile_def)

lemma setTile_same:
  assumes "tileAt g x y = Some t"
  shows "setTile (setTile g x y t') x y t = g"
  using tileAt_mem [OF assms] by (simp add: setTile_def list_update_same_conv)

lemma allTiles_at:
  assumes "allTiles P g" and "tileAt g x y = Some t"
  shows "P t"
proof -
  from tileAt_mem [OF assms(2)]
  have "g ! nat y \<in> set g" and "t \<in> set (g ! nat y)" by simp_all
  with assms(1) show ?thesis by (auto simp: allTiles_def)
qed

lemma allTiles_setTile:
  assumes "allTiles P g" and "P t"
  shows "allTiles P (setTile g x y t)"
proof (cases "nat y < length g")
  case True
  then have row: "g ! nat y \<in> set g" by simp
  show ?thesis
    unfolding allTiles_def setTile_def
  proof (intro ballI)
    fix row u
    assume r: "row \<in> set (g[nat y := (g ! nat y)[nat x := t]])" and u: "u \<in> set row"
    from r have "row = (g ! nat y)[nat x := t] \<or> row \<in> set g"
      using set_update_subset_insert [of g "nat y" "(g ! nat y)[nat x := t]"] by auto
    then show "P u"
    proof
      assume "row = (g ! nat y)[nat x := t]"
      with u have "u = t \<or> u \<in> set (g ! nat y)"
        using set_update_subset_insert [of "g ! nat y" "nat x" t] by auto
      with assms row show ?thesis by (auto simp: allTiles_def)
    next
      assume "row \<in> set g"
      with assms(1) u show ?thesis by (auto simp: allTiles_def)
    qed
  qed
next
  case False
  then show ?thesis using assms(1) by (simp add: setTile_def list_update_beyond not_less)
qed

lemma say_fields [simp]:
  "grid (say m k s) = grid s" "stats (say m k s) = stats s" "gameStarted (say m k s) = gameStarted s"
  by (simp_all add: say_def)

lemma spend_fields [simp]:
  "grid (spend c s) = grid s" "money (stats (spend c s)) = money (stats s) - c"
  "population (stats (spend c s)) = population (stats s)" "gameStarted (spend c s) = gameStarted s"
  by (simp_all add: spend_def)

lemma credit_fields [simp]:
  "grid (credit c s) = grid s" "money (stats (credit c s)) = money (stats s) + c"
  "population (stats (credit c s)) = population (stats s)" "gameStarted (credit c s) = gameStarted s"
  by (simp_all add: credit_def)

text \<open>
  C5: a click with any tool other than the Land tool on an in-bounds tile that is not owned
  is rejected: the only effect is the message "You do not own this land."; the statistics
  (so the money), the grid and the clicked tile are unchanged.
\<close>

theorem unowned_click_rejected:
  assumes "gameStarted s" and "inBounds x y" and "tileAt (grid s) x y = Some t"
    and "\<not> owned t" and "tool \<noteq> Land"
  shows "handleTileClick tool x y s = Inr (say NotOwned negative s) \<and>
         stats (say NotOwned negative s) = stats s \<and>
         grid (say NotOwned negative s) = grid s \<and>
         tileAt (grid (say NotOwned negative s)) x y = Some t"
  using assms by (simp add: handleTileClick_started buildTool_def)

lemma floor_half_div: "\<lfloor>real_of_int p / 2\<rfloor> = p div 2"
  using floor_divide_of_int_eq [of p 2, where ?'a = real] by simp

lemma started_run: "run [Start] exampleInit = Inr (after [Start])"
  unfolding after_def by code_simp

lemma started_values:
  "gameStarted (after [Start]) \<and> money (stats (after [Start])) = 50000 \<and>
   tileAt (grid (after [Start])) 0 0 =
     Some \<lparr>tile_x = 0, tile_y = 0, buildingType = NoneBT, owned = False, isWater = False,
           isRail = False, landPrice = 5000\<rparr> \<and>
   tileAt (grid (after [Start])) 15 12 =
     Some \<lparr>tile_x = 15, tile_y = 12, buildingType = NoneBT, owned = False, isWater = False,
           isRail = False, landPrice = 5000\<rparr> \<and>
   hasOwnedNeighbor (grid (after [Start])) 15 12 = Inr True"
  unfolding after_def by code_simp

theorem unowned_click_rejected_witness:
  "handleTileClick Road 0 0 (after [Start]) = Inr (say NotOwned negative (after [Start])) \<and>
   stats (say NotOwned negative (after [Start])) = stats (after [Start]) \<and>
   grid (say NotOwned negative (after [Start])) = grid (after [Start])"
proof -
  let ?t = "\<lparr>tile_x = 0, tile_y = 0, buildingType = NoneBT, owned = False, isWater = False,
            isRail = False, landPrice = 5000\<rparr>"
  have h1: "gameStarted (after [Start])" using started_values by simp
  have h2: "inBounds 0 0" by (simp add: inBounds_def GRID_SIZE_def)
  have h3: "tileAt (grid (after [Start])) 0 0 = Some ?t" using started_values by simp
  have h4: "\<not> owned ?t" by simp
  have h5: "Road \<noteq> Land" by simp
  from unowned_click_rejected [OF h1 h2 h3 h4 h5] show ?thesis by simp
qed

text \<open>
  C4: on an in-bounds tile that is dry, empty, unowned, priced \<open>p \<ge> 1\<close>, with an owned
  orthogonal neighbour (the code's own adjacency test yields true) and with money at least
  \<open>p\<close>, two Land clicks in a row first debit \<open>p\<close> and set \<open>owned\<close>, then credit
  \<open>floor (p \<times> 0.5) = p div 2\<close> and clear \<open>owned\<close>. The grid is back to what it was, the net
  change of money is \<open>p div 2 - p\<close>, and that is strictly negative.
\<close>

theorem land_round_trip:
  assumes "gameStarted s" and "inBounds x y" and "tileAt (grid s) x y = Some t"
    and "\<not> isWater t" and "buildingType t = NoneBT" and "landPrice t = p" and "1 \<le> p"
    and "\<not> owned t" and "hasOwnedNeighbor (grid s) x y = Inr True" and "p \<le> money (stats s)"
  shows "\<exists>s1 s2. handleTileClick Land x y s = Inr s1 \<and>
           money (stats s1) = money (stats s) - p \<and>
           tileAt (grid s1) x y = Some (t\<lparr>owned := True\<rparr>) \<and>
           handleTileClick Land x y s1 = Inr s2 \<and>
           money (stats s2) = money (stats s1) + \<lfloor>real_of_int p * 0.5\<rfloor> \<and>
           \<lfloor>real_of_int p * 0.5\<rfloor> = p div 2 \<and>
           tileAt (grid s2) x y = Some t \<and> \<not> owned t \<and> grid s2 = grid s \<and>
           money (stats s2) - money (stats s) = p div 2 - p \<and>
           p div 2 - p < 0"
proof -
  let ?up = "t\<lparr>owned := True\<rparr>"
  let ?s1 = "say (TerritoryAcquired p) positive
               (spend p (s\<lparr>grid := setTile (grid s) x y ?up\<rparr>))"
  let ?s2 = "say (LandSold (p div 2)) neutral
               (credit (p div 2) (?s1\<lparr>grid := setTile (grid ?s1) x y t\<rparr>))"
  have price: "priceOf t = p" "priceOf ?up = p"
    using assms(6,7) by (simp_all add: priceOf_def)
  have restore: "t\<lparr>owned := True, owned := False\<rparr> = t"
    using assms(8) by (cases t) simp
  have buy: "handleTileClick Land x y s = Inr ?s1"
    using assms price by (simp add: handleTileClick_started landTool_def Let_def)
  have g1: "grid ?s1 = setTile (grid s) x y ?up" by simp
  have t1: "tileAt (grid ?s1) x y = Some ?up"
    unfolding g1 using assms(3) by (rule tileAt_setTile_same)
  have started1: "gameStarted ?s1" using assms(1) by simp
  have sell: "handleTileClick Land x y ?s1 = Inr ?s2"
    using assms(4,5) price restore
    by (simp add: handleTileClick_started [OF started1 assms(2) t1] landTool_def Let_def
        floor_half floor_half_div del: say_fields spend_fields credit_fields)
  have g2: "grid ?s2 = grid s"
    using setTile_same [OF assms(3)] by simp
  have m1: "money (stats ?s1) = money (stats s) - p" by simp
  have m2: "money (stats ?s2) = money (stats ?s1) + p div 2" by simp
  have lossy: "p div 2 - p < 0" using assms(7) by linarith
  from buy sell t1 g2 m1 m2 lossy assms(3,8) show ?thesis
    by (intro exI [where x = ?s1] exI [where x = ?s2]) (simp add: floor_half floor_half_div)
qed

theorem land_round_trip_witness:
  "\<exists>s1 s2. handleTileClick Land 15 12 (after [Start]) = Inr s1 \<and>
     money (stats s1) = 45000 \<and>
     handleTileClick Land 15 12 s1 = Inr s2 \<and>
     money (stats s2) = 47500 \<and>
     grid s2 = grid (after [Start])"
proof -
  let ?t = "\<lparr>tile_x = 15, tile_y = 12, buildingType = NoneBT, owned = False, isWater = False,
            isRail = False, landPrice = 5000\<rparr>"
  have h1: "gameStarted (after [Start])" using started_values by simp
  have h2: "inBounds 15 12" by (simp add: inBounds_def GRID_SIZE_def)
  have h3: "tileAt (grid (after [Start])) 15 12 = Some ?t" using started_values by simp
  have h4: "\<not> isWater ?t" and h5: "buildingType ?t = NoneBT" and h6: "landPrice ?t = 5000"
    and h7: "(1::int) \<le> 5000" and h8: "\<not> owned ?t" by simp_all
  have h9: "hasOwnedNeighbor (grid (after [Start])) 15 12 = Inr True"
    using started_values by simp
  have h10: "5000 \<le> money (stats (after [Start]))" using started_values by simp
  from land_round_trip [OF h1 h2 h3 h4 h5 h6 h7 h8 h9 h10] started_values
  show ?thesis by auto
qed

section \<open>Money is never negative\<close>

lemma landTool_moneyInv:
  assumes "moneyInv s" and "tileAt (grid s) x y = Some t" and "landTool x y t s = Inr s'"
  shows "moneyInv s'"
proof -
  have lp: "0 \<le> landPrice t"
    using allTiles_at [of "\<lambda>t. 0 \<le> landPrice t", OF _ assms(2)] assms(1)
    by (simp add: moneyInv_def)
  have pr: "0 \<le> priceOf t" using lp by (simp add: priceOf_def LAND_COST_def)
  have half: "0 \<le> priceOf t div 2" using pr by simp
  have keep: "\<And>b. allTiles (\<lambda>t. 0 \<le> landPrice t) (setTile (grid s) x y (t\<lparr>owned := b\<rparr>))"
    using assms(1) lp by (intro allTiles_setTile) (simp_all add: moneyInv_def)
  show ?thesis
    using assms(1,3) half keep
    by (auto simp: landTool_def Let_def moneyInv_def floor_half floor_half_div
        split: if_splits sum.splits)
qed

lemma cost_nonneg: "0 \<le> cost (BUILDINGS tool)"
  by (cases tool) (simp_all add: LAND_COST_def)

lemma buildTool_moneyInv:
  assumes "moneyInv s" and "tileAt (grid s) x y = Some t"
  shows "moneyInv (buildTool tool x y t s)"
proof -
  have lp: "0 \<le> landPrice t"
    using allTiles_at [of "\<lambda>t. 0 \<le> landPrice t", OF _ assms(2)] assms(1)
    by (simp add: moneyInv_def)
  have keep: "\<And>b r. allTiles (\<lambda>t. 0 \<le> landPrice t)
      (setTile (grid s) x y (t\<lparr>buildingType := b, isRail := r\<rparr>))"
    using assms(1) lp by (intro allTiles_setTile) (simp_all add: moneyInv_def)
  have keep': "\<And>b. allTiles (\<lambda>t. 0 \<le> landPrice t)
      (setTile (grid s) x y (t\<lparr>buildingType := b\<rparr>))"
    using assms(1) lp by (intro allTiles_setTile) (simp_all add: moneyInv_def)
  show ?thesis
    using assms(1) keep keep'
    by (simp add: buildTool_def Let_def moneyInv_def demolishCost_def)
qed

lemma handleTileClick_moneyInv:
  assumes "moneyInv s" and "handleTileClick tool x y s = Inr s'"
  shows "moneyInv s'"
  using assms landTool_moneyInv [of s x y _ s'] buildTool_moneyInv [of s x y _ tool]
  by (auto simp: handleTileClick_def split: if_splits option.splits)

lemma economicTick_moneyInv: "moneyInv s \<Longrightarrow> moneyInv (economicTick s)"
  using dailyIncome_nonneg [of "grid s"]
  by (simp add: moneyInv_def grid_economicTick money_economicTick)

lemma fire_moneyInv:
  assumes "moneyInv s" and "fire e s = Inr s'"
  shows "moneyInv s'"
proof (cases e)
  case Start
  with assms show ?thesis by (auto simp: fire_def handleStart_def moneyInv_def)
next
  case (Click tool x y)
  with assms show ?thesis by (auto simp: fire_def intro: handleTileClick_moneyInv)
next
  case Tick
  with assms show ?thesis by (auto simp: fire_def intro: economicTick_moneyInv)
next
  case DayTick
  with assms show ?thesis by (auto simp: fire_def dayInterval_def moneyInv_def)
next
  case (News item)
  with assms show ?thesis by (auto simp: fire_def moneyInv_def)
qed

lemma initialState_moneyInv:
  assumes "validGen randomVariance distTerm"
  shows "moneyInv (initialState riverY randomVariance distTerm)"
proof -
  have "0 \<le> 5000 + randomVariance x y + distTerm x y" for x y
    using assms unfolding validGen_def
    by (metis add_nonneg_nonneg zero_le_numeral)
  then show ?thesis
    by (auto simp: moneyInv_def initialState_def INITIAL_MONEY_def allTiles_def
        createInitialGrid_def createTile_def)
qed

lemma reachable_moneyInv: "reachable s \<Longrightarrow> moneyInv s"
  by (induction rule: reachable.induct) (auto intro: initialState_moneyInv fire_moneyInv)

text \<open>
  C10: the game starts with 50000, and in every state reachable through any interleaving
  of starts, clicks, economic ticks, day/night ticks and news arrivals the money is not
  negative; in particular it is not negative after the next click, whatever the tool and
  tile, and the next tick does not lower it.
\<close>

theorem money_never_negative:
  assumes "reachable s"
  shows "0 \<le> money (stats s) \<and>
         money (stats s) \<le> money (stats (economicTick s)) \<and>
         (\<forall>tool x y s'. handleTileClick tool x y s = Inr s' \<longrightarrow> 0 \<le> money (stats s')) \<and>
         money (stats (initialState riverY randomVariance distTerm)) = 50000"
proof -
  have inv: "moneyInv s" using assms by (rule reachable_moneyInv)
  have tick: "money (stats s) \<le> money (stats (economicTick s))"
    using dailyIncome_nonneg [of "grid s"] by (simp add: money_economicTick)
  have click: "0 \<le> money (stats s')" if "handleTileClick tool x y s = Inr s'" for tool x y s'
    using handleTileClick_moneyInv [OF inv that] by (simp add: moneyInv_def)
  from inv tick click show ?thesis
    by (simp add: moneyInv_def initialState_def INITIAL_MONEY_def)
qed

theorem money_never_negative_witness:
  "reachable (after flightTrace) \<and> money (stats (after flightTrace)) = 49895 \<and>
   0 \<le> money (stats (after flightTrace))"
proof -
  have r: "reachable (after flightTrace)"
    using flightTrace_run by (rule after_reachable)
  have m: "money (stats (after flightTrace)) = 49895"
    unfolding after_def flightTrace_def by code_simp
  have "0 \<le> money (stats (after flightTrace))"
    using money_never_negative [OF r] by (rule conjunct1)
  with r m show ?thesis by blast
qed

section \<open>Rail flag and building type\<close>

lemma bridgeOverRailTrace_run:
  "run bridgeOverRailTrace exampleInit = Inr (after bridgeOverRailTrace)"
  unfolding after_def bridgeOverRailTrace_def by code_simp

lemma bridgeOverRail_values:
  "tileAt (grid (after [Start, Click Rail 10 12])) 10 12 =
     Some \<lparr>tile_x = 10, tile_y = 12, buildingType = Rail, owned = True, isWater = True,
           isRail = True, landPrice = 5000\<rparr> \<and>
   money (stats (after [Start, Click Rail 10 12])) = 49850 \<and>
   tileAt (grid (after bridgeOverRailTrace)) 10 12 =
     Some \<lparr>tile_x = 10, tile_y = 12, buildingType = Bridge, owned = True, isWater = True,
           isRail = True, landPrice = 5000\<rparr> \<and>
   money (stats (after bridgeOverRailTrace)) = 48850"
  unfolding after_def bridgeOverRailTrace_def by code_simp

text \<open>
  C2: after a successful placement every tile with \<open>isRail\<close> should carry a Rail building.
  The code breaks this: tile (10, 12) of the initial grid is owned water; laying Rail on it
  sets \<open>isRail\<close>, and a following Bridge placement on the same tile succeeds (the cost of
  1000 is debited) and replaces only \<open>buildingType\<close>, leaving \<open>isRail = True\<close> on a Bridge.
\<close>

theorem bridge_over_rail_keeps_isRail:
  "reachable (after bridgeOverRailTrace) \<and>
   tileAt (grid (after [Start, Click Rail 10 12])) 10 12 =
     Some \<lparr>tile_x = 10, tile_y = 12, buildingType = Rail, owned = True, isWater = True,
           isRail = True, landPrice = 5000\<rparr> \<and>
   money (stats (after [Start, Click Rail 10 12])) = 49850 \<and>
   tileAt (grid (after bridgeOverRailTrace)) 10 12 =
     Some \<lparr>tile_x = 10, tile_y = 12, buildingType = Bridge, owned = True, isWater = True,
           isRail = True, landPrice = 5000\<rparr> \<and>
   money (stats (after bridgeOverRailTrace)) = 48850"
  using after_reachable [OF bridgeOverRailTrace_run] bridgeOverRail_values by simp

text \<open>
  Apart from that case every click keeps the two fields consistent on all tiles: bulldozing
  clears both, laying Rail sets both, and any other placement happens on a tile without a
  building.
\<close>

lemma buildTool_railOK:
  assumes "allTiles (\<lambda>t. isRail t \<longrightarrow> buildingType t = Rail) (grid s)"
    and "tileAt (grid s) x y = Some t" and "\<not> (tool = Bridge \<and> isRail t)"
  shows "allTiles (\<lambda>t. isRail t \<longrightarrow> buildingType t = Rail) (grid (buildTool tool x y t s))"
proof -
  have ok: "isRail t \<longrightarrow> buildingType t = Rail"
    using allTiles_at [of "\<lambda>t. isRail t \<longrightarrow> buildingType t = Rail", OF assms(1,2)] .
  have clear: "allTiles (\<lambda>t. isRail t \<longrightarrow> buildingType t = Rail)
      (setTile (grid s) x y (t\<lparr>buildingType := NoneBT, isRail := False\<rparr>))"
    using assms(1) by (intro allTiles_setTile) simp_all
  have lay: "allTiles (\<lambda>t. isRail t \<longrightarrow> buildingType t = Rail)
      (setTile (grid s) x y (t\<lparr>buildingType := Rail, isRail := True\<rparr>))"
    using assms(1) by (intro allTiles_setTile) simp_all
  have place: "allTiles (\<lambda>t. isRail t \<longrightarrow> buildingType t = Rail)
      (setTile (grid s) x y (t\<lparr>buildingType := tool\<rparr>))" if "\<not> isRail t"
    using assms(1) that by (intro allTiles_setTile) simp_all
  show ?thesis
    using assms(1,3) ok clear lay place
    by (auto simp: buildTool_def Let_def)
qed

lemma landTool_railOK:
  assumes "allTiles (\<lambda>t. isRail t \<longrightarrow> buildingType t = Rail) (grid s)"
    and "tileAt (grid s) x y = Some t" and "landTool x y t s = Inr s'"
  shows "allTiles (\<lambda>t. isRail t \<longrightarrow> buildingType t = Rail) (grid s')"
proof -
  have ok: "isRail t \<longrightarrow> buildingType t = Rail"
    using allTiles_at [of "\<lambda>t. isRail t \<longrightarrow> buildingType t = Rail", OF assms(1,2)] .
  have keep: "\<And>b. allTiles (\<lambda>t. isRail t \<longrightarrow> buildingType t = Rail)
      (setTile (grid s) x y (t\<lparr>owned := b\<rparr>))"
    using assms(1) ok by (intro allTiles_setTile) simp_all
  show ?thesis
    using assms(1,3) keep
    by (auto simp: landTool_def Let_def split: if_splits sum.splits)
qed

lemma handleTileClick_railOK:
  assumes "allTiles (\<lambda>t. isRail t \<longrightarrow> buildingType t = Rail) (grid s)"
    and "handleTileClick tool x y s = Inr s'"
    and "\<not> (tool = Bridge \<and> (\<exists>t. tileAt (grid s) x y = Some t \<and> isRail t))"
  shows "allTiles (\<lambda>t. isRail t \<longrightarrow> buildingType t = Rail) (grid s')"
  using assms landTool_railOK [of s x y _ s'] buildTool_railOK [of s x y _ tool]
  by (auto simp: handleTileClick_def split: if_splits option.splits)

section \<open>Day/night clock\<close>





text \<open>
  The source keeps the clock in a double, the model in a real, so the model adds without
  rounding. The statements about the clock are therefore statements of order and of
  bounds with a margin, which the rounding of a thousand additions (less than a millionth
  in all) does not change, and none of them asserts an exact value other than the initial 0.
\<close>




section \<open>Train\<close>

lemma jsMod_nonneg:
  assumes "0 \<le> a" and "0 < b"
  shows "jsMod a b = a - b * of_int \<lfloor>a / b\<rfloor>" and "0 \<le> jsMod a b" and "jsMod a b < b"
proof -
  have q: "0 \<le> a / b" using assms by simp
  show eq: "jsMod a b = a - b * of_int \<lfloor>a / b\<rfloor>"
    using q by (simp add: jsMod_def jsTrunc_def)
  have "of_int \<lfloor>a / b\<rfloor> \<le> a / b" by simp
  then have "b * of_int \<lfloor>a / b\<rfloor> \<le> b * (a / b)"
    using assms(2) by (intro mult_left_mono) simp_all
  then have "b * of_int \<lfloor>a / b\<rfloor> \<le> a"
    using assms(2) by simp
  then show "0 \<le> jsMod a b" by (simp add: eq)
  have "a / b < of_int \<lfloor>a / b\<rfloor> + 1" by linarith
  then have "b * (a / b) < b * (of_int \<lfloor>a / b\<rfloor> + 1)"
    using assms(2) by (intro mult_strict_left_mono) simp_all
  then have "a < b * (of_int \<lfloor>a / b\<rfloor> + 1)"
    using assms(2) by simp
  then show "jsMod a b < b" by (simp add: eq algebra_simps)
qed

lemma trainPos_range:
  assumes "0 \<le> p" and "0 < n"
  shows "0 \<le> trainRawPos n p" and "trainRawPos n p < 2 * real n"
    and "0 \<le> trainPos n p" and "trainPos n p \<le> real n"
    and "trainRawPos n p \<noteq> real n \<Longrightarrow> trainPos n p < real n"
proof -
  have b: "0 < real n * 2" using assms(2) by simp
  show r0: "0 \<le> trainRawPos n p"
    unfolding trainRawPos_def using assms(1) b by (rule jsMod_nonneg(2))
  have "trainRawPos n p < real n * 2"
    unfolding trainRawPos_def using assms(1) b by (rule jsMod_nonneg(3))
  then show r1: "trainRawPos n p < 2 * real n" by simp
  show "0 \<le> trainPos n p" using r0 r1 by (simp add: trainPos_def Let_def)
  show "trainPos n p \<le> real n" using r0 r1 by (simp add: trainPos_def Let_def)
  show "trainRawPos n p \<noteq> real n \<Longrightarrow> trainPos n p < real n"
    using r0 r1 by (simp add: trainPos_def Let_def)
qed

lemma threeRails_simps:
  "length threeRails = 3" "threeRails ! 0 = (0, 0)" "threeRails ! 1 = (1, 0)"
  "threeRails ! 2 = (2, 0)" "threeRails \<noteq> []"
  "threeRails ! Suc 0 = (1, 0)" "threeRails ! Suc (Suc 0) = (2, 0)"
  by (simp_all add: threeRails_def)

text \<open>
  C7 (as stated): the progress folds over \<open>[0, 2 \<times> (count - 1)]\<close>. With three rail tiles
  \<open>[A, B, C]\<close> and progress 4 such a wave is back at 0 (tile A), while the code's position
  is 2: the frame puts the train on tile C, on the return leg.
\<close>

theorem train_fold_counterexample:
  "spec_pingPong 3 4 = 0 \<and> trainPos 3 4 = 2 \<and>
   TrainSystem_frame threeRails 0 (4 / 3) =
     Updated (4, \<lparr>trainX = 2, trainY = 0, headDx = 0, headDy = 0, reversed = True\<rparr>)"
proof -
  have f: "\<lfloor>2 / 3 :: real\<rfloor> = 0" by (simp add: floor_eq_iff)
  have raw: "trainRawPos 3 4 = 4"
    by (simp add: trainRawPos_def jsMod_def jsTrunc_def f)
  have pos: "trainPos 3 4 = 2"
    by (simp add: trainPos_def raw)
  have spec: "spec_pingPong 3 4 = 0"
    by (simp add: spec_pingPong_def jsMod_def jsTrunc_def)
  have fr: "TrainSystem_frame threeRails 0 (4 / 3) =
     Updated (4, \<lparr>trainX = 2, trainY = 0, headDx = 0, headDy = 0, reversed = True\<rparr>)"
    by (simp add: TrainSystem_frame_def TrainSystem_renders_def threeRails_simps trainSpeed_def
        raw pos lerp_def Let_def)
  from spec pos fr show ?thesis by simp
qed

text \<open>
  C7 (amended): with \<open>count \<ge> 2\<close> rail tiles the frame advances the progress by
  \<open>3 \<times> delta\<close> and folds it over \<open>[0, 2 \<times> count]\<close>:
  \<open>rawPos = progress mod (2 \<times> count) = progress - 2 \<times> count \<times> floor (progress / (2 \<times> count))\<close>
  and \<open>pos\<close> is \<open>rawPos\<close> up to \<open>count\<close> and \<open>2 \<times> count - rawPos\<close> beyond. Except at
  \<open>rawPos = count\<close>, the train is drawn between the tiles of index \<open>floor pos\<close> and
  \<open>min (floor pos + 1) (count - 1)\<close>, heading from the first to the second, so for
  \<open>pos \<ge> count - 1\<close> it stands on the last tile, where it turns round; the heading is
  rotated by \<open>\<pi>\<close> exactly when \<open>rawPos > count\<close>, the return leg. The wave has period
  \<open>2 \<times> count\<close>.
\<close>

theorem train_ping_pong:
  assumes "2 \<le> length tiles" and "0 \<le> progressRef + delta * 3"
    and "progressRef + delta * 3
           - real (length tiles) * 2
             * of_int \<lfloor>(progressRef + delta * 3) / (real (length tiles) * 2)\<rfloor>
         \<noteq> real (length tiles)"
  shows "\<exists>pose.
           TrainSystem_frame tiles progressRef delta = Updated (progressRef + delta * 3, pose) \<and>
           (let n = length tiles;
                p = progressRef + delta * 3;
                rawPos = p - real n * 2 * of_int \<lfloor>p / (real n * 2)\<rfloor>;
                pos = (if rawPos > real n then real n * 2 - rawPos else rawPos);
                idx = nat \<lfloor>pos\<rfloor>;
                nextIdx = min (idx + 1) (n - 1)
            in trainRawPos n p = rawPos \<and> trainPos n p = pos \<and>
               0 \<le> rawPos \<and> rawPos < 2 * real n \<and>
               0 \<le> pos \<and> pos < real n \<and> idx < n \<and> nextIdx < n \<and>
               trainX pose = lerp (of_int (fst (tiles ! idx))) (of_int (fst (tiles ! nextIdx)))
                               (pos - real idx) \<and>
               trainY pose = lerp (of_int (snd (tiles ! idx))) (of_int (snd (tiles ! nextIdx)))
                               (pos - real idx) \<and>
               headDx pose = of_int (fst (tiles ! nextIdx)) - of_int (fst (tiles ! idx)) \<and>
               headDy pose = of_int (snd (tiles ! nextIdx)) - of_int (snd (tiles ! idx)) \<and>
               reversed pose = (rawPos > real n) \<and>
               (real n - 1 \<le> pos \<longrightarrow>
                  trainX pose = of_int (fst (tiles ! (n - 1))) \<and>
                  trainY pose = of_int (snd (tiles ! (n - 1)))) \<and>
               trainPos n (p + 2 * real n) = trainPos n p)"
proof -
  let ?n = "length tiles"
  let ?p = "progressRef + delta * 3"
  let ?raw = "trainRawPos ?n ?p"
  let ?pos = "trainPos ?n ?p"
  let ?idx = "nat \<lfloor>?pos\<rfloor>"
  let ?next = "min (?idx + 1) (?n - 1)"
  let ?pose = "\<lparr>trainX = lerp (of_int (fst (tiles ! ?idx))) (of_int (fst (tiles ! ?next)))
                          (?pos - real ?idx),
                trainY = lerp (of_int (snd (tiles ! ?idx))) (of_int (snd (tiles ! ?next)))
                          (?pos - real ?idx),
                headDx = of_int (fst (tiles ! ?next)) - of_int (fst (tiles ! ?idx)),
                headDy = of_int (snd (tiles ! ?next)) - of_int (snd (tiles ! ?idx)),
                reversed = (?raw > real ?n)\<rparr>"
  have n: "0 < ?n" using assms(1) by linarith
  have ne: "tiles \<noteq> []" using n by simp
  have b: "0 < real ?n * 2" using n by simp
  have raw_eq: "?p - real ?n * 2 * of_int \<lfloor>?p / (real ?n * 2)\<rfloor> = ?raw"
    unfolding trainRawPos_def using jsMod_nonneg(1) [OF assms(2) b] by (rule sym)
  have pos_eq: "(if ?raw > real ?n then real ?n * 2 - ?raw else ?raw) = ?pos"
    by (simp add: trainPos_def Let_def)
  have not_fold: "?raw \<noteq> real ?n" using assms(3) unfolding raw_eq .
  note rng = trainPos_range [OF assms(2) n]
  have pos_lt: "?pos < real ?n" using rng(5) not_fold by simp
  have fl0: "0 \<le> \<lfloor>?pos\<rfloor>" using rng(3) by simp
  have fl1: "\<lfloor>?pos\<rfloor> < int ?n" using pos_lt by (simp add: floor_less_iff)
  have idx: "?idx < ?n" using fl1 by (simp only: nat_less_iff [OF fl0])
  have idx_int: "int ?idx = \<lfloor>?pos\<rfloor>" using fl0 by simp
  have idx_real: "real ?idx = of_int \<lfloor>?pos\<rfloor>"
    using idx_int by (metis of_int_of_nat_eq)
  have next_nat: "nat (min (\<lfloor>?pos\<rfloor> + 1) (int ?n - 1)) = ?next"
    using fl0 n by (simp add: min_def) linarith
  have frame: "TrainSystem_frame tiles progressRef delta = Updated (?p, ?pose)"
    using assms(1) ne fl0 fl1 next_nat idx_real
    by (simp add: TrainSystem_frame_def TrainSystem_renders_def trainSpeed_def Let_def)
  have last: "trainX ?pose = of_int (fst (tiles ! (?n - 1))) \<and>
              trainY ?pose = of_int (snd (tiles ! (?n - 1)))" if "real ?n - 1 \<le> ?pos"
  proof -
    from that have "int ?n - 1 \<le> \<lfloor>?pos\<rfloor>" by (simp add: le_floor_iff)
    with fl1 have "\<lfloor>?pos\<rfloor> = int ?n - 1" by simp
    then have i: "?idx = ?n - 1" using n by (simp add: nat_diff_distrib)
    then have "?next = ?n - 1" by simp
    with i show ?thesis by (simp add: lerp_def algebra_simps)
  qed
  have period: "trainPos ?n (?p + 2 * real ?n) = ?pos"
  proof -
    have "(?p + 2 * real ?n) / (real ?n * 2) = ?p / (real ?n * 2) + 1"
      using n by (simp add: field_simps)
    then have "\<lfloor>(?p + 2 * real ?n) / (real ?n * 2)\<rfloor> = \<lfloor>?p / (real ?n * 2)\<rfloor> + 1"
      by simp
    then have "jsMod (?p + 2 * real ?n) (real ?n * 2) = jsMod ?p (real ?n * 2)"
      using jsMod_nonneg(1) [OF assms(2) b] jsMod_nonneg(1) [of "?p + 2 * real ?n" "real ?n * 2"]
        assms(2) b
      by (simp add: algebra_simps)
    then show ?thesis by (simp add: trainPos_def trainRawPos_def)
  qed
  have next_lt: "?next < ?n" using n by linarith
  have main: "TrainSystem_frame tiles progressRef delta = Updated (?p, ?pose) \<and>
       (?raw = ?raw \<and> ?pos = ?pos \<and>
        0 \<le> ?raw \<and> ?raw < 2 * real ?n \<and>
        0 \<le> ?pos \<and> ?pos < real ?n \<and> ?idx < ?n \<and> ?next < ?n \<and>
        trainX ?pose = lerp (of_int (fst (tiles ! ?idx))) (of_int (fst (tiles ! ?next)))
                         (?pos - real ?idx) \<and>
        trainY ?pose = lerp (of_int (snd (tiles ! ?idx))) (of_int (snd (tiles ! ?next)))
                         (?pos - real ?idx) \<and>
        headDx ?pose = of_int (fst (tiles ! ?next)) - of_int (fst (tiles ! ?idx)) \<and>
        headDy ?pose = of_int (snd (tiles ! ?next)) - of_int (snd (tiles ! ?idx)) \<and>
        reversed ?pose = (?raw > real ?n) \<and>
        (real ?n - 1 \<le> ?pos \<longrightarrow>
           trainX ?pose = of_int (fst (tiles ! (?n - 1))) \<and>
           trainY ?pose = of_int (snd (tiles ! (?n - 1)))) \<and>
        trainPos ?n (?p + 2 * real ?n) = ?pos)"
    using frame rng(1,2,3) pos_lt idx next_lt last period by simp
  show ?thesis
    apply (rule exI [where x = ?pose])
    unfolding Let_def raw_eq pos_eq
    by (rule main)
qed

theorem train_ping_pong_witness:
  "(\<exists>pose. TrainSystem_frame threeRails 0 (1 / 2) = Updated (3 / 2, pose) \<and>
           trainX pose = 3 / 2 \<and> trainY pose = 0 \<and> headDx pose = 1 \<and> \<not> reversed pose) \<and>
   (\<exists>pose. TrainSystem_frame threeRails 0 (3 / 2) = Updated (9 / 2, pose) \<and>
           trainX pose = 3 / 2 \<and> trainY pose = 0 \<and> headDx pose = 1 \<and> reversed pose)"
proof -
  have f14: "\<lfloor>1 / 4 :: real\<rfloor> = 0" by (simp add: floor_eq_iff)
  have f34: "\<lfloor>3 / 4 :: real\<rfloor> = 0" by (simp add: floor_eq_iff)
  have fl: "\<lfloor>3 / 2 :: real\<rfloor> = 1" by (simp add: floor_eq_iff)
  have h1: "2 \<le> length threeRails" by (simp add: threeRails_simps)
  have out2: "(0::real) \<le> 0 + 1 / 2 * 3" by simp
  have out3: "0 + 1 / 2 * 3
           - real (length threeRails) * 2
             * of_int \<lfloor>(0 + 1 / 2 * 3) / (real (length threeRails) * 2)\<rfloor>
         \<noteq> real (length threeRails)"
    by (simp add: threeRails_simps f14)
  have ret2: "(0::real) \<le> 0 + 3 / 2 * 3" by simp
  have ret3: "0 + 3 / 2 * 3
           - real (length threeRails) * 2
             * of_int \<lfloor>(0 + 3 / 2 * 3) / (real (length threeRails) * 2)\<rfloor>
         \<noteq> real (length threeRails)"
    by (simp add: threeRails_simps f34)
  have outward: "\<exists>pose. TrainSystem_frame threeRails 0 (1 / 2) = Updated (3 / 2, pose) \<and>
           trainX pose = 3 / 2 \<and> trainY pose = 0 \<and> headDx pose = 1 \<and> \<not> reversed pose"
    using train_ping_pong [OF h1 out2 out3]
    by (auto simp add: threeRails_simps Let_def lerp_def f14 fl)
  have return: "\<exists>pose. TrainSystem_frame threeRails 0 (3 / 2) = Updated (9 / 2, pose) \<and>
           trainX pose = 3 / 2 \<and> trainY pose = 0 \<and> headDx pose = 1 \<and> reversed pose"
    using train_ping_pong [OF h1 ret2 ret3]
    by (auto simp add: threeRails_simps Let_def lerp_def f34 fl)
  from outward return show ?thesis by (rule conjI)
qed

text \<open>
  At \<open>rawPos = count\<close> exactly the index \<open>floor pos = count\<close> is outside the tile list,
  and reading the tile's coordinates throws.
\<close>

lemma train_frame_at_fold: "TrainSystem_frame threeRails 0 1 = Threw TypeError"
proof -
  have f: "\<lfloor>1 / 2 :: real\<rfloor> = 0" by (simp add: floor_eq_iff)
  have raw: "trainRawPos 3 3 = 3"
    by (simp add: trainRawPos_def jsMod_def jsTrunc_def f)
  have pos: "trainPos 3 3 = 3"
    by (simp add: trainPos_def raw)
  show ?thesis
    by (simp add: TrainSystem_frame_def TrainSystem_renders_def threeRails_simps trainSpeed_def
        raw pos Let_def)
qed

section \<open>Fewer than two tiles\<close>








section \<open>Vehicles\<close>

lemma pickAt_mem:
  assumes "unitDraw r" and "xs \<noteq> []"
  shows "\<exists>x. pickAt xs r = Some x \<and> x \<in> set xs"
proof -
  let ?n = "length xs"
  let ?i = "\<lfloor>r * real ?n\<rfloor>"
  have n: "0 < real ?n" using assms(2) by simp
  have "0 \<le> r * real ?n" using assms(1) by (simp add: unitDraw_def)
  then have lo: "0 \<le> ?i" by simp
  have "r * real ?n < 1 * real ?n"
    using assms(1) n by (intro mult_strict_right_mono) (simp_all add: unitDraw_def)
  then have "r * real ?n < real_of_int (int ?n)" by simp
  then have hi: "?i < int ?n" by (simp only: floor_less_iff)
  have "nat ?i < ?n" using hi by (simp only: nat_less_iff [OF lo])
  then have "xs ! nat ?i \<in> set xs" by simp
  with lo hi show ?thesis by (simp add: pickAt_def Let_def)
qed

lemma pickAt_slot:
  assumes "k < length xs" and "real k / real (length xs) \<le> r"
    and "r < (real k + 1) / real (length xs)"
  shows "pickAt xs r = Some (xs ! k)"
proof -
  let ?n = "length xs"
  have "0 < ?n" using assms(1) by linarith
  then have n: "0 < real ?n" by (simp only: of_nat_0_less_iff)
  have lo: "real k \<le> r * real ?n"
    using assms(2) n by (simp add: field_simps)
  have hi: "r * real ?n < real k + 1"
    using assms(3) n by (simp add: field_simps)
  have "\<lfloor>r * real ?n\<rfloor> = int k"
    using lo hi by (simp add: floor_eq_iff)
  then show ?thesis using assms(1) by (simp add: pickAt_def Let_def)
qed

lemma onTiles_mem: "t \<in> set tiles \<Longrightarrow> onTiles tiles (of_int (fst t)) (of_int (snd t))"
  by (auto simp: onTiles_def)

lemma nextTarget_mem:
  assumes "unitDraw r" and "neighbors \<noteq> []"
  shows "\<exists>n. nextTarget r (validTargets c neighbors) neighbors = Some n \<and> n \<in> set neighbors"
proof (cases "validTargets c neighbors = []")
  case True
  have "0 < length neighbors" using assms(2) by simp
  then have "neighbors ! 0 \<in> set neighbors" by (rule nth_mem)
  with True show ?thesis by (simp add: nextTarget_def)
next
  case False
  have sub: "set (validTargets c neighbors) \<subseteq> set neighbors"
    by (auto simp: validTargets_def)
  from pickAt_mem [OF assms(1) False] obtain n
    where "pickAt (validTargets c neighbors) r = Some n" "n \<in> set (validTargets c neighbors)"
    by blast
  with False sub show ?thesis by (auto simp: nextTarget_def)
qed

lemma carStep_inv:
  assumes "unitDraw r" and "tiles \<noteq> []" and "carInv tiles c"
  shows "\<exists>c'. carStep tiles r c = Inr c' \<and> carInv tiles c' \<and> progress c' < 1"
proof (cases "progress c + speed c \<ge> 1")
  case False
  then show ?thesis using assms(3) by (simp add: carStep_def carInv_def Let_def)
next
  case wrap: True
  let ?nb = "filter (isNeighbor (tarX c) (tarY c)) tiles"
  have tar: "onTiles tiles (tarX c) (tarY c)" and sp: "0 \<le> speed c"
    using assms(3) by (simp_all add: carInv_def)
  show ?thesis
  proof (cases "?nb = []")
    case True
    from pickAt_mem [OF assms(1,2)] obtain t where t: "pickAt tiles r = Some t" "t \<in> set tiles"
      by blast
    then show ?thesis
      using wrap True sp onTiles_mem [OF t(2)]
      by (simp add: carStep_def carInv_def Let_def)
  next
    case False
    from nextTarget_mem [OF assms(1) False, of c] obtain n
      where n: "nextTarget r (validTargets c ?nb) ?nb = Some n" "n \<in> set ?nb" by blast
    from n(2) have mem: "n \<in> set tiles" by simp
    have "carStep tiles r c =
            Inr (c\<lparr>curX := tarX c, curY := tarY c, tarX := of_int (fst n),
                   tarY := of_int (snd n), progress := 0\<rparr>)"
      using wrap False n(1) by (simp add: carStep_def Let_def)
    then show ?thesis
      using tar sp onTiles_mem [OF mem] by (simp add: carInv_def)
  qed
qed

lemma stepCars_inv:
  assumes "\<forall>i. unitDraw (rnd i)" and "tiles \<noteq> []" and "list_all (carInv tiles) cars"
  shows "\<exists>cars'. stepCars tiles rnd i cars = Inr cars' \<and> length cars' = length cars \<and>
           list_all (\<lambda>c. carInv tiles c \<and> progress c < 1) cars'"
  using assms(3)
proof (induction cars arbitrary: i)
  case Nil
  show ?case by simp
next
  case (Cons c cars)
  from Cons.prems have c: "carInv tiles c" and rest: "list_all (carInv tiles) cars"
    by simp_all
  from assms(1) have "unitDraw (rnd i)" by simp
  from carStep_inv [OF this assms(2) c] obtain c'
    where c': "carStep tiles (rnd i) c = Inr c'" "carInv tiles c'" "progress c' < 1" by blast
  from Cons.IH [OF rest, of "i + 1"] obtain cars'
    where cars': "stepCars tiles rnd (i + 1) cars = Inr cars'" "length cars' = length cars"
      "list_all (\<lambda>c. carInv tiles c \<and> progress c < 1) cars'" by blast
  from c' cars' show ?case by simp
qed

lemma frames_inv:
  assumes "\<forall>rnd \<in> set rnds. \<forall>i. unitDraw (rnd i)" and "tiles \<noteq> []"
    and "list_all (carInv tiles) cars"
  shows "\<exists>cars'. TrafficSystem_frames tiles rnds cars = Inr cars' \<and>
           length cars' = length cars \<and> list_all (carInv tiles) cars' \<and>
           (2 \<le> length tiles \<and> cars \<noteq> [] \<and> rnds \<noteq> [] \<longrightarrow> list_all (\<lambda>c. progress c < 1) cars')"
  using assms(1,3)
proof (induction rnds arbitrary: cars)
  case Nil
  then show ?case by simp
next
  case (Cons rnd rnds)
  from Cons.prems(1) have now: "\<forall>i. unitDraw (rnd i)"
    and later: "\<forall>rnd \<in> set rnds. \<forall>i. unitDraw (rnd i)" by simp_all
  show ?case
  proof (cases "\<not> TrafficSystem_renders tiles \<or> length tiles < 2 \<or> length cars = 0")
    case True
    then have "TrafficSystem_frame tiles rnd cars = NoWork"
      by (simp add: TrafficSystem_frame_def)
    moreover from Cons.IH [OF later Cons.prems(2)] obtain cars'
      where "TrafficSystem_frames tiles rnds cars = Inr cars'" "length cars' = length cars"
        "list_all (carInv tiles) cars'" by blast
    ultimately show ?thesis using True by (auto simp: TrafficSystem_renders_def)
  next
    case False
    from stepCars_inv [OF now assms(2) Cons.prems(2), of 0] obtain cars1
      where c1: "stepCars tiles rnd 0 cars = Inr cars1" "length cars1 = length cars"
        "list_all (\<lambda>c. carInv tiles c \<and> progress c < 1) cars1" by blast
    have fr: "TrafficSystem_frame tiles rnd cars = Updated cars1"
      using False c1(1) by (simp add: TrafficSystem_frame_def)
    have inv1: "list_all (carInv tiles) cars1" and lt1: "list_all (\<lambda>c. progress c < 1) cars1"
      using c1(3) by (simp_all add: list_all_iff)
    from Cons.IH [OF later inv1] obtain cars'
      where c2: "TrafficSystem_frames tiles rnds cars1 = Inr cars'" "length cars' = length cars1"
        "list_all (carInv tiles) cars'"
        "2 \<le> length tiles \<and> cars1 \<noteq> [] \<and> rnds \<noteq> [] \<longrightarrow> list_all (\<lambda>c. progress c < 1) cars'"
      by blast
    have "list_all (\<lambda>c. progress c < 1) cars'" if "2 \<le> length tiles" "cars \<noteq> []"
    proof (cases "rnds = []")
      case True
      with c2(1) lt1 show ?thesis by simp
    next
      case False
      with c2(4) that c1(2) show ?thesis by auto
    qed
    with fr c2(1,2,3) c1(2) show ?thesis by simp
  qed
qed

lemma collect_map:
  assumes "\<forall>i \<in> set is. \<exists>v. f i = Inr v \<and> P v"
  shows "\<exists>vs. collect (map f is) = Inr vs \<and> length vs = length is \<and> list_all P vs"
  using assms
proof (induction "is")
  case Nil
  show ?case by simp
next
  case (Cons i "is")
  from Cons.prems obtain v where v: "f i = Inr v" "P v" by auto
  from Cons.prems have "\<forall>i \<in> set is. \<exists>v. f i = Inr v \<and> P v" by simp
  from Cons.IH [OF this] obtain vs
    where "collect (map f is) = Inr vs" "length vs = length is" "list_all P vs" by blast
  with v show ?case by simp
qed

lemma seedCar_inv:
  assumes "\<forall>k. unitDraw (rs k)" and "tiles \<noteq> []"
  shows "\<exists>c. seedCar tiles rs = Inr c \<and> carInv tiles c"
proof -
  from assms(1) have u0: "unitDraw (rs 0)" and u1: "unitDraw (rs 1)" by simp_all
  from pickAt_mem [OF u0 assms(2)] obtain t where t: "pickAt tiles (rs 0) = Some t" "t \<in> set tiles"
    by blast
  have "0 \<le> getRandomRange 0.01 0.03 (rs 1)"
    using u1 by (simp add: getRandomRange_def unitDraw_def)
  with t onTiles_mem [OF t(2)] show ?thesis
    by (simp add: seedCar_def carInv_def)
qed

lemma seedCars_inv:
  assumes "\<forall>i k. unitDraw (rnd0 i k)" and "2 \<le> length tiles"
  shows "\<exists>cars. seedCars tiles rnd0 old = Inr cars \<and> length cars = carCount tiles \<and>
           list_all (carInv tiles) cars"
proof -
  have ne: "tiles \<noteq> []" using assms(2) by auto
  have "\<forall>i \<in> set [0..<carCount tiles]. \<exists>c. seedCar tiles (rnd0 i) = Inr c \<and> carInv tiles c"
    using seedCar_inv [OF _ ne] assms(1) by simp
  from collect_map [OF this] show ?thesis
    using assms(2) by (simp add: seedCars_def)
qed

lemma carGridPos_segment:
  assumes "carInv [a, b] c"
  shows "\<exists>l. 0 \<le> l \<and> l \<le> 1 \<and>
           carGridPos c = (lerp (of_int (fst a)) (of_int (fst b)) l,
                           lerp (of_int (snd a)) (of_int (snd b)) l)"
proof -
  from assms have p: "0 \<le> progress c" "progress c \<le> 1"
    and cur: "(curX c = of_int (fst a) \<and> curY c = of_int (snd a)) \<or>
              (curX c = of_int (fst b) \<and> curY c = of_int (snd b))"
    and tar: "(tarX c = of_int (fst a) \<and> tarY c = of_int (snd a)) \<or>
              (tarX c = of_int (fst b) \<and> tarY c = of_int (snd b))"
    by (auto simp: carInv_def onTiles_def)
  from cur tar consider
      (aa) "curX c = of_int (fst a)" "curY c = of_int (snd a)"
           "tarX c = of_int (fst a)" "tarY c = of_int (snd a)"
    | (ab) "curX c = of_int (fst a)" "curY c = of_int (snd a)"
           "tarX c = of_int (fst b)" "tarY c = of_int (snd b)"
    | (ba) "curX c = of_int (fst b)" "curY c = of_int (snd b)"
           "tarX c = of_int (fst a)" "tarY c = of_int (snd a)"
    | (bb) "curX c = of_int (fst b)" "curY c = of_int (snd b)"
           "tarX c = of_int (fst b)" "tarY c = of_int (snd b)"
    by blast
  then show ?thesis
  proof cases
    case aa
    then show ?thesis
      by (intro exI [where x = 0]) (simp add: carGridPos_def lerp_def algebra_simps)
  next
    case ab
    with p show ?thesis
      by (intro exI [where x = "progress c"]) (simp add: carGridPos_def lerp_def)
  next
    case ba
    with p show ?thesis
      by (intro exI [where x = "1 - progress c"]) (simp add: carGridPos_def lerp_def)
  next
    case bb
    then show ?thesis
      by (intro exI [where x = 1]) (simp add: carGridPos_def lerp_def algebra_simps)
  qed
qed

lemma abs_le_norm2: "\<bar>v\<bar> \<le> sqrt (u * u + v * v)"
proof -
  have "v * v \<le> u * u + v * v" by simp
  then have "sqrt (v * v) \<le> sqrt (u * u + v * v)" by (simp only: real_sqrt_le_iff)
  then show ?thesis by simp
qed

lemma scaled_bound: "\<bar>q\<bar> \<le> 1 \<Longrightarrow> \<bar>q * 0.15\<bar> \<le> (0.15 :: real)"
  by (simp add: abs_mult)

lemma carOffset_bound: "\<bar>fst (carOffset c)\<bar> \<le> 0.15 \<and> \<bar>snd (carOffset c)\<bar> \<le> 0.15"
proof -
  let ?dx = "tarX c - curX c"
  let ?dy = "tarY c - curY c"
  let ?s = "sqrt (?dx * ?dx + ?dy * ?dy)"
  show ?thesis
  proof (cases "?s = 0")
    case True
    then have "?dx * ?dx + ?dy * ?dy = 0" by simp
    then have "?dx = 0 \<and> ?dy = 0" by (simp add: sum_squares_eq_zero_iff)
    then show ?thesis using True by (simp add: carOffset_def Let_def)
  next
    case False
    have "0 \<le> ?dx * ?dx + ?dy * ?dy" by simp
    then have "0 \<le> ?s" by (rule real_sqrt_ge_zero)
    with False have pos: "0 < ?s" by (metis less_le)
    have "\<bar>?dy\<bar> \<le> ?s" by (rule abs_le_norm2)
    then have y: "\<bar>?dy / ?s\<bar> \<le> 1" using pos by simp
    have "\<bar>?dx\<bar> \<le> sqrt (?dy * ?dy + ?dx * ?dx)" by (rule abs_le_norm2)
    then have "\<bar>?dx\<bar> \<le> ?s" by (simp add: add.commute)
    then have x: "\<bar>?dx / ?s\<bar> \<le> 1" using pos by simp
    have "\<bar>- ?dy / ?s\<bar> = \<bar>?dy / ?s\<bar>"
      by (simp only: divide_minus_left abs_minus_cancel)
    with y have y': "\<bar>- ?dy / ?s\<bar> \<le> 1" by (simp only:)
    have ox: "\<bar>(- ?dy / ?s) * 0.15\<bar> \<le> 0.15" using y' by (rule scaled_bound)
    have oy: "\<bar>(?dx / ?s) * 0.15\<bar> \<le> 0.15" using x by (rule scaled_bound)
    have eq: "carOffset c = ((- ?dy / ?s) * 0.15, (?dx / ?s) * 0.15)"
      using False by (simp only: carOffset_def Let_def if_False)
    from ox oy show ?thesis unfolding eq fst_conv snd_conv by (rule conjI)
  qed
qed

lemma carStep_teleport:
  assumes "unitDraw r" and "tiles \<noteq> []" and "1 \<le> progress c + speed c"
    and "filter (isNeighbor (tarX c) (tarY c)) tiles = []"
  shows "\<exists>t \<in> set tiles. pickAt tiles r = Some t \<and>
           carStep tiles r c =
             Inr (c\<lparr>curX := of_int (fst t), curY := of_int (snd t), tarX := of_int (fst t),
                    tarY := of_int (snd t), progress := 0\<rparr>)"
proof -
  from pickAt_mem [OF assms(1,2)] obtain t where t: "pickAt tiles r = Some t" "t \<in> set tiles"
    by blast
  then show ?thesis using assms(3,4) by (auto simp: carStep_def Let_def)
qed

lemma isNeighbor_sym:
  "isNeighbor (of_int (fst a)) (of_int (snd a)) b \<Longrightarrow>
   isNeighbor (of_int (fst b)) (of_int (snd b)) a"
  by (auto simp: isNeighbor_def abs_minus_commute)

lemma adjacent_has_neighbor:
  assumes "isNeighbor (of_int (fst a)) (of_int (snd a)) b" and "onTiles [a, b] x y"
  shows "filter (isNeighbor x y) [a, b] \<noteq> []"
  using assms isNeighbor_sym [OF assms(1)] by (auto simp: onTiles_def)

lemma upt_two: "[0..<2] = [0, 1]"
  by code_simp

lemma floor_zero_real: "\<lfloor>0 :: real\<rfloor> = 0"
  by simp

lemma twoRoads_seed:
  "seedCars twoRoads zeroDraws [] =
     Inr [\<lparr>curX = 0, curY = 0, tarX = 0, tarY = 0, progress = 1, speed = 1 / 100\<rparr>,
          \<lparr>curX = 0, curY = 0, tarX = 0, tarY = 0, progress = 1, speed = 1 / 100\<rparr>]"
  by (simp add: seedCars_def twoRoads_def carCount_def upt_two seedCar_def pickAt_def
      zeroDraws_def getRandomRange_def)

lemma twoRoads_step_first:
  "carStep twoRoads 0 \<lparr>curX = 0, curY = 0, tarX = 0, tarY = 0, progress = 1, speed = 1 / 100\<rparr> =
     Inr \<lparr>curX = 0, curY = 0, tarX = 1, tarY = 0, progress = 0, speed = 1 / 100\<rparr>"
  by (simp add: carStep_def twoRoads_def isNeighbor_def validTargets_def nextTarget_def
      pickAt_def Let_def)

lemma twoRoads_step_second:
  "carStep twoRoads 0 \<lparr>curX = 0, curY = 0, tarX = 1, tarY = 0, progress = 0, speed = 1 / 100\<rparr> =
     Inr \<lparr>curX = 0, curY = 0, tarX = 1, tarY = 0, progress = 1 / 100, speed = 1 / 100\<rparr>"
  by (simp add: carStep_def Let_def)

lemma twoRoads_frames:
  "TrafficSystem_frames twoRoads [zeroDraw, zeroDraw]
     [\<lparr>curX = 0, curY = 0, tarX = 0, tarY = 0, progress = 1, speed = 1 / 100\<rparr>,
      \<lparr>curX = 0, curY = 0, tarX = 0, tarY = 0, progress = 1, speed = 1 / 100\<rparr>] =
     Inr [\<lparr>curX = 0, curY = 0, tarX = 1, tarY = 0, progress = 1 / 100, speed = 1 / 100\<rparr>,
          \<lparr>curX = 0, curY = 0, tarX = 1, tarY = 0, progress = 1 / 100, speed = 1 / 100\<rparr>]"
proof -
  have len: "length twoRoads = 2" by (simp add: twoRoads_def)
  show ?thesis
    by (simp add: TrafficSystem_frame_def TrafficSystem_renders_def len zeroDraw_def
        twoRoads_step_first twoRoads_step_second)
qed

lemma twoRoads_worldPos:
  "carWorldPos \<lparr>curX = 0, curY = 0, tarX = 1, tarY = 0, progress = 1 / 100, speed = 1 / 100\<rparr> =
     (- (1199 / 100), 0, - (237 / 20))"
  by (simp add: carWorldPos_def carGridPos_def carOffset_def lerp_def gridToWorld_def
      WORLD_OFFSET_def GRID_SIZE_def Let_def)

text \<open>
  C9 (as stated): with two adjacent road tiles "the single vehicle" stays on the segment
  between them. There are two vehicles (\<open>carCount\<close> is the number of road tiles, up to
  30), and a vehicle under way is drawn beside the segment, not on it: here the tiles are
  (0, 0) and (1, 0), whose world positions have third coordinate \<open>-12\<close>, and after two
  frames the vehicles are drawn at third coordinate \<open>-11.85\<close> (the driving-side offset
  of 0.15).
\<close>

theorem two_road_tiles_counterexample:
  "carCount twoRoads = 2 \<and>
   seedCars twoRoads zeroDraws [] =
     Inr [\<lparr>curX = 0, curY = 0, tarX = 0, tarY = 0, progress = 1, speed = 1 / 100\<rparr>,
          \<lparr>curX = 0, curY = 0, tarX = 0, tarY = 0, progress = 1, speed = 1 / 100\<rparr>] \<and>
   TrafficSystem_frames twoRoads [zeroDraw, zeroDraw]
     [\<lparr>curX = 0, curY = 0, tarX = 0, tarY = 0, progress = 1, speed = 1 / 100\<rparr>,
      \<lparr>curX = 0, curY = 0, tarX = 0, tarY = 0, progress = 1, speed = 1 / 100\<rparr>] =
     Inr [\<lparr>curX = 0, curY = 0, tarX = 1, tarY = 0, progress = 1 / 100, speed = 1 / 100\<rparr>,
          \<lparr>curX = 0, curY = 0, tarX = 1, tarY = 0, progress = 1 / 100, speed = 1 / 100\<rparr>] \<and>
   carWorldPos \<lparr>curX = 0, curY = 0, tarX = 1, tarY = 0, progress = 1 / 100, speed = 1 / 100\<rparr> =
     (- (1199 / 100), 0, - (237 / 20)) \<and>
   gridToWorld 0 0 = (- 12, 0, - 12) \<and> gridToWorld 1 0 = (- 11, 0, - 12)"
proof -
  have cc: "carCount twoRoads = 2" by (simp add: carCount_def twoRoads_def)
  have w: "gridToWorld 0 0 = (- 12, 0, - 12) \<and> gridToWorld 1 0 = (- 11, 0, - 12)"
    by (simp add: gridToWorld_def WORLD_OFFSET_def GRID_SIZE_def)
  from cc twoRoads_seed twoRoads_frames twoRoads_worldPos w show ?thesis by blast
qed

text \<open>
  C9 (amended): with a road graph of exactly two tiles \<open>a\<close>, \<open>b\<close> there are two
  vehicles. Seeding succeeds, and after any number of frames on the unchanged grid (random
  draws in \<open>[0, 1)\<close>) no frame has thrown and every vehicle's current and target
  positions are tiles of the graph; its progress is in \<open>[0, 1]\<close> (below 1 after the first
  frame), so its interpolated grid position lies on the segment between the two tiles,
  and it is drawn at that position displaced by the driving-side offset, at most 0.15 in
  each coordinate. If the two tiles are orthogonally adjacent, a vehicle on either tile
  always finds a neighbour. When a vehicle that has arrived finds no neighbour, the step
  does not throw: it puts the vehicle on the tile \<open>pickAt tiles r\<close>, which is \<open>a\<close> for
  \<open>r\<close> in \<open>[0, 1/2)\<close> and \<open>b\<close> for \<open>r\<close> in \<open>[1/2, 1)\<close>.
\<close>

theorem two_road_tiles:
  assumes "\<forall>i k. unitDraw (rnd0 i k)" and "\<forall>rnd \<in> set rnds. \<forall>i. unitDraw (rnd i)"
  shows "carCount [a, b] = 2 \<and>
    (\<exists>cars cars'.
       seedCars [a, b] rnd0 old = Inr cars \<and> length cars = 2 \<and>
       TrafficSystem_frames [a, b] rnds cars = Inr cars' \<and> length cars' = 2 \<and>
       (\<forall>c \<in> set cars'.
          onTiles [a, b] (curX c) (curY c) \<and> onTiles [a, b] (tarX c) (tarY c) \<and>
          0 \<le> progress c \<and> progress c \<le> 1 \<and> (rnds \<noteq> [] \<longrightarrow> progress c < 1) \<and>
          (\<exists>l. 0 \<le> l \<and> l \<le> 1 \<and>
             carGridPos c = (lerp (of_int (fst a)) (of_int (fst b)) l,
                             lerp (of_int (snd a)) (of_int (snd b)) l)) \<and>
          carWorldPos c = gridToWorld (fst (carGridPos c) + fst (carOffset c))
                            (snd (carGridPos c) + snd (carOffset c)) \<and>
          \<bar>fst (carOffset c)\<bar> \<le> 0.15 \<and> \<bar>snd (carOffset c)\<bar> \<le> 0.15)) \<and>
    (isNeighbor (of_int (fst a)) (of_int (snd a)) b \<longrightarrow>
       (\<forall>x y. onTiles [a, b] x y \<longrightarrow> filter (isNeighbor x y) [a, b] \<noteq> [])) \<and>
    (\<forall>r c. unitDraw r \<and> 1 \<le> progress c + speed c \<and>
            filter (isNeighbor (tarX c) (tarY c)) [a, b] = [] \<longrightarrow>
       (\<exists>t \<in> set [a, b]. pickAt [a, b] r = Some t \<and>
          carStep [a, b] r c =
            Inr (c\<lparr>curX := of_int (fst t), curY := of_int (snd t), tarX := of_int (fst t),
                   tarY := of_int (snd t), progress := 0\<rparr>))) \<and>
    (\<forall>r. 0 \<le> r \<and> r < 1 / 2 \<longrightarrow> pickAt [a, b] r = Some a) \<and>
    (\<forall>r. 1 / 2 \<le> r \<and> r < 1 \<longrightarrow> pickAt [a, b] r = Some b)"
proof -
  let ?tiles = "[a, b]"
  have ne: "?tiles \<noteq> []" and two: "2 \<le> length ?tiles" by simp_all
  have cc: "carCount ?tiles = 2" by (simp add: carCount_def)
  from seedCars_inv [OF assms(1) two, of old] obtain cars
    where seed: "seedCars ?tiles rnd0 old = Inr cars" "length cars = carCount ?tiles"
      "list_all (carInv ?tiles) cars" by blast
  have cars_ne: "cars \<noteq> []" using seed(2) cc by auto
  from frames_inv [OF assms(2) ne seed(3)] obtain cars'
    where fr: "TrafficSystem_frames ?tiles rnds cars = Inr cars'" "length cars' = length cars"
      "list_all (carInv ?tiles) cars'"
      "2 \<le> length ?tiles \<and> cars \<noteq> [] \<and> rnds \<noteq> [] \<longrightarrow> list_all (\<lambda>c. progress c < 1) cars'"
    by blast
  have each: "onTiles ?tiles (curX c) (curY c) \<and> onTiles ?tiles (tarX c) (tarY c) \<and>
          0 \<le> progress c \<and> progress c \<le> 1 \<and> (rnds \<noteq> [] \<longrightarrow> progress c < 1) \<and>
          (\<exists>l. 0 \<le> l \<and> l \<le> 1 \<and>
             carGridPos c = (lerp (of_int (fst a)) (of_int (fst b)) l,
                             lerp (of_int (snd a)) (of_int (snd b)) l)) \<and>
          carWorldPos c = gridToWorld (fst (carGridPos c) + fst (carOffset c))
                            (snd (carGridPos c) + snd (carOffset c)) \<and>
          \<bar>fst (carOffset c)\<bar> \<le> 0.15 \<and> \<bar>snd (carOffset c)\<bar> \<le> 0.15"
    if mem: "c \<in> set cars'" for c
  proof -
    from fr(3) mem have inv: "carInv ?tiles c" by (simp add: list_all_iff)
    have lt: "rnds \<noteq> [] \<longrightarrow> progress c < 1"
      using fr(4) cars_ne mem by (simp add: list_all_iff)
    from inv lt carGridPos_segment [OF inv] carOffset_bound [of c] show ?thesis
      by (simp add: carInv_def carWorldPos_def)
  qed
  have part1: "\<exists>cars cars'.
       seedCars [a, b] rnd0 old = Inr cars \<and> length cars = 2 \<and>
       TrafficSystem_frames [a, b] rnds cars = Inr cars' \<and> length cars' = 2 \<and>
       (\<forall>c \<in> set cars'.
          onTiles [a, b] (curX c) (curY c) \<and> onTiles [a, b] (tarX c) (tarY c) \<and>
          0 \<le> progress c \<and> progress c \<le> 1 \<and> (rnds \<noteq> [] \<longrightarrow> progress c < 1) \<and>
          (\<exists>l. 0 \<le> l \<and> l \<le> 1 \<and>
             carGridPos c = (lerp (of_int (fst a)) (of_int (fst b)) l,
                             lerp (of_int (snd a)) (of_int (snd b)) l)) \<and>
          carWorldPos c = gridToWorld (fst (carGridPos c) + fst (carOffset c))
                            (snd (carGridPos c) + snd (carOffset c)) \<and>
          \<bar>fst (carOffset c)\<bar> \<le> 0.15 \<and> \<bar>snd (carOffset c)\<bar> \<le> 0.15)"
    using seed(1,2) fr(1,2) cc each
    by (intro exI [where x = cars] exI [where x = cars']) simp
  have part2: "isNeighbor (of_int (fst a)) (of_int (snd a)) b \<longrightarrow>
       (\<forall>x y. onTiles [a, b] x y \<longrightarrow> filter (isNeighbor x y) [a, b] \<noteq> [])"
    using adjacent_has_neighbor [of a b] by blast
  have part3: "\<forall>r c. unitDraw r \<and> 1 \<le> progress c + speed c \<and>
            filter (isNeighbor (tarX c) (tarY c)) [a, b] = [] \<longrightarrow>
       (\<exists>t \<in> set [a, b]. pickAt [a, b] r = Some t \<and>
          carStep [a, b] r c =
            Inr (c\<lparr>curX := of_int (fst t), curY := of_int (snd t), tarX := of_int (fst t),
                   tarY := of_int (snd t), progress := 0\<rparr>))"
    using carStep_teleport [OF _ ne] by blast
  have part4: "\<forall>r. 0 \<le> r \<and> r < 1 / 2 \<longrightarrow> pickAt [a, b] r = Some a"
    using pickAt_slot [of 0 "[a, b]"] by simp
  have part5: "\<forall>r. 1 / 2 \<le> r \<and> r < 1 \<longrightarrow> pickAt [a, b] r = Some b"
    using pickAt_slot [of 1 "[a, b]"] by simp
  from cc part1 part2 part3 part4 part5 show ?thesis by blast
qed

theorem two_road_tiles_witness:
  "carCount twoRoads = 2 \<and>
   (\<exists>cars'. TrafficSystem_frames twoRoads [zeroDraw, zeroDraw]
       [\<lparr>curX = 0, curY = 0, tarX = 0, tarY = 0, progress = 1, speed = 1 / 100\<rparr>,
        \<lparr>curX = 0, curY = 0, tarX = 0, tarY = 0, progress = 1, speed = 1 / 100\<rparr>] = Inr cars' \<and>
      length cars' = 2 \<and>
      list_all (\<lambda>c. onTiles twoRoads (curX c) (curY c) \<and> onTiles twoRoads (tarX c) (tarY c) \<and>
                    progress c < 1) cars')"
proof -
  have h1: "\<forall>i k. unitDraw (zeroDraws i k)"
    by (simp add: unitDraw_def zeroDraws_def)
  have h2: "\<forall>rnd \<in> set [zeroDraw, zeroDraw]. \<forall>i. unitDraw (rnd i)"
    by (simp add: unitDraw_def zeroDraw_def)
  from two_road_tiles [OF h1 h2, of "(0, 0)" "(1, 0)" "[]"] twoRoads_seed
  show ?thesis
    unfolding twoRoads_def [symmetric] by (auto simp: list_all_iff)
qed

end
